theory Spec2Isabelle
  imports Main "HOL-Library.Word"
begin

unbundle bit_operations_syntax

section \<open>Packet memory and machine integers\<close>

text \<open>
  The XDP programs of the tutorial work on raw pointers into the packet buffer.
  Addresses are natural numbers, memory is a store from addresses to bytes, and the
  context \<open>struct xdp_md\<close> carries the two pointers \<open>data\<close> and \<open>data_end\<close> that
  delimit the frame.  Address 0 is the lowest byte the head of the packet may be
  moved to, so \<open>data\<close> is also the headroom in front of the frame.
\<close>

type_synonym u8 = "8 word"
type_synonym u16 = "16 word"
type_synonym u32 = "32 word"
type_synonym addr = nat
type_synonym memory = "addr \<Rightarrow> u8"

record xdp_md =
  mem :: memory
  data :: addr
  data_end :: addr
  ingress_ifindex :: u32

text \<open>\<open>struct hdr_cursor\<close> of \<open>common/parsing_helpers.h\<close>.\<close>

record hdr_cursor =
  pos :: addr

text \<open>The bytes of the frame, from \<open>data\<close> up to \<open>data_end\<close>.\<close>

definition frame :: "xdp_md \<Rightarrow> u8 list" where
  "frame ctx = map (mem ctx) [data ctx ..< data_end ctx]"

text \<open>A memory holding the given bytes from address 0 on (zero elsewhere).\<close>

definition mem_of :: "u8 list \<Rightarrow> memory" where
  "mem_of bs = (\<lambda>a. if a < length bs then bs ! a else 0)"

subsection \<open>Loads, stores and byte order\<close>

text \<open>
  The programs are compiled for a little-endian host: a \<open>__u16\<close> or \<open>__be16\<close>
  load reads the byte at the lower address as the low byte, and
  \<open>bpf_htons\<close>/\<open>bpf_ntohs\<close> of \<open>bpf_endian.h\<close> swap the two bytes
  (\<open>(x << 8) | (x >> 8)\<close> on 16 bits).
\<close>

definition load16 :: "memory \<Rightarrow> addr \<Rightarrow> u16" where
  "load16 m a = push_bit 8 (ucast (m (a + 1))) OR ucast (m a)"

definition store16 :: "memory \<Rightarrow> addr \<Rightarrow> u16 \<Rightarrow> memory" where
  "store16 m a v = m(a := ucast v, a + 1 := ucast (drop_bit 8 v))"

definition load32 :: "memory \<Rightarrow> addr \<Rightarrow> u32" where
  "load32 m a = push_bit 24 (ucast (m (a + 3))) OR push_bit 16 (ucast (m (a + 2)))
                OR push_bit 8 (ucast (m (a + 1))) OR ucast (m a)"

definition store32 :: "memory \<Rightarrow> addr \<Rightarrow> u32 \<Rightarrow> memory" where
  "store32 m a v = m(a := ucast v, a + 1 := ucast (drop_bit 8 v),
                     a + 2 := ucast (drop_bit 16 v), a + 3 := ucast (drop_bit 24 v))"

text \<open>\<open>memcpy\<close> out of and into the packet, for byte arrays held in local variables.\<close>

definition load_bytes :: "memory \<Rightarrow> addr \<Rightarrow> nat \<Rightarrow> u8 list" where
  "load_bytes m a n = map m [a ..< a + n]"

definition store_bytes :: "memory \<Rightarrow> addr \<Rightarrow> nat \<Rightarrow> u8 list \<Rightarrow> memory" where
  "store_bytes m a n bs = (\<lambda>x. if a \<le> x \<and> x < a + n then bs ! (x - a) else m x)"

definition bpf_htons :: "u16 \<Rightarrow> u16" where
  "bpf_htons x = push_bit 8 x OR drop_bit 8 x"

definition bpf_ntohs :: "u16 \<Rightarrow> u16" where
  "bpf_ntohs x = push_bit 8 x OR drop_bit 8 x"

subsection \<open>Constants of the kernel headers\<close>

definition ETH_P_IP :: u16 where "ETH_P_IP = 0x0800"
definition ETH_P_IPV6 :: u16 where "ETH_P_IPV6 = 0x86DD"
definition ETH_P_8021Q :: u16 where "ETH_P_8021Q = 0x8100"
definition ETH_P_8021AD :: u16 where "ETH_P_8021AD = 0x88A8"
definition ETH_ALEN :: nat where "ETH_ALEN = 6"

definition IPPROTO_ICMP :: int where "IPPROTO_ICMP = 1"
definition IPPROTO_TCP :: int where "IPPROTO_TCP = 6"
definition IPPROTO_UDP :: int where "IPPROTO_UDP = 17"
definition IPPROTO_ICMPV6 :: int where "IPPROTO_ICMPV6 = 58"

definition ICMP_ECHOREPLY :: u8 where "ICMP_ECHOREPLY = 0"
definition ICMP_ECHO :: u8 where "ICMP_ECHO = 8"
definition ICMPV6_ECHO_REQUEST :: u8 where "ICMPV6_ECHO_REQUEST = 128"
definition ICMPV6_ECHO_REPLY :: u8 where "ICMPV6_ECHO_REPLY = 129"

text \<open>Sizes and field offsets of the header structs (\<open>sizeof\<close>, \<open>offsetof\<close>).\<close>

definition sizeof_ethhdr :: nat where "sizeof_ethhdr = 14"
definition sizeof_vlan_hdr :: nat where "sizeof_vlan_hdr = 4"
definition sizeof_iphdr :: nat where "sizeof_iphdr = 20"
definition sizeof_ipv6hdr :: nat where "sizeof_ipv6hdr = 40"
definition sizeof_icmphdr :: nat where "sizeof_icmphdr = 8"
definition sizeof_icmp6hdr :: nat where "sizeof_icmp6hdr = 8"
definition sizeof_tcphdr :: nat where "sizeof_tcphdr = 20"
definition sizeof_udphdr :: nat where "sizeof_udphdr = 8"

text \<open>\<open>eth->h_proto\<close>, and the two fields of \<open>struct vlan_hdr\<close>.\<close>

definition eth_h_proto :: "memory \<Rightarrow> addr \<Rightarrow> u16" where
  "eth_h_proto m eth = load16 m (eth + 12)"

definition h_vlan_TCI :: "memory \<Rightarrow> addr \<Rightarrow> u16" where
  "h_vlan_TCI m vlh = load16 m vlh"

definition h_vlan_encapsulated_proto :: "memory \<Rightarrow> addr \<Rightarrow> u16" where
  "h_vlan_encapsulated_proto m vlh = load16 m (vlh + 2)"

text \<open>\<open>iph->ihl\<close> is the low nibble of the first byte of the IPv4 header.\<close>

definition iph_ihl :: "memory \<Rightarrow> addr \<Rightarrow> nat" where
  "iph_ihl m iph = unat (m iph AND 0x0F)"

definition iph_ttl :: "memory \<Rightarrow> addr \<Rightarrow> u8" where
  "iph_ttl m iph = m (iph + 8)"

definition iph_protocol :: "memory \<Rightarrow> addr \<Rightarrow> u8" where
  "iph_protocol m iph = m (iph + 9)"

definition ip6h_nexthdr :: "memory \<Rightarrow> addr \<Rightarrow> u8" where
  "ip6h_nexthdr m ip6h = m (ip6h + 6)"

definition ip6h_hop_limit :: "memory \<Rightarrow> addr \<Rightarrow> u8" where
  "ip6h_hop_limit m ip6h = m (ip6h + 7)"

definition icmph_type :: "memory \<Rightarrow> addr \<Rightarrow> u8" where
  "icmph_type m icmph = m icmph"

section \<open>The parsing helpers of \<open>common/parsing_helpers.h\<close>\<close>

definition VLAN_MAX_DEPTH :: nat where "VLAN_MAX_DEPTH = 5"

definition proto_is_vlan :: "u16 \<Rightarrow> bool" where
  "proto_is_vlan h_proto \<longleftrightarrow>
     h_proto = bpf_htons ETH_P_8021Q \<or> h_proto = bpf_htons ETH_P_8021AD"

text \<open>
  The \<open>for\<close> loop of \<open>parse_ethhdr\<close>, from loop counter \<open>i\<close> on.  It returns the
  loop state at exit: the counter, the tag pointer \<open>vlh\<close> and \<open>h_proto\<close>.
\<close>

function parse_ethhdr_loop ::
  "memory \<Rightarrow> addr \<Rightarrow> nat \<Rightarrow> addr \<Rightarrow> u16 \<Rightarrow> nat \<times> addr \<times> u16" where
  "parse_ethhdr_loop m dend i vlh h_proto =
     (if i < VLAN_MAX_DEPTH then
        (if \<not> proto_is_vlan h_proto then (i, vlh, h_proto)
         else if vlh + sizeof_vlan_hdr > dend then (i, vlh, h_proto)
         else parse_ethhdr_loop m dend (i + 1) (vlh + sizeof_vlan_hdr)
                (h_vlan_encapsulated_proto m vlh))
      else (i, vlh, h_proto))"
  by pat_completeness auto
termination
  by (relation "measure (\<lambda>(m, dend, i, vlh, h_proto). VLAN_MAX_DEPTH - i)") auto

text \<open>
  Every parser returns its \<open>int\<close> result and the cursor.  The header pointer a
  parser stores through its third argument on success is the cursor position at
  entry, which the callers below read off before the call.
\<close>

definition parse_ethhdr :: "memory \<Rightarrow> hdr_cursor \<Rightarrow> addr \<Rightarrow> int \<times> hdr_cursor" where
  "parse_ethhdr m nh dend =
     (let eth = pos nh; hdrsize = sizeof_ethhdr in
      if pos nh + hdrsize > dend then (- 1, nh)
      else
        (let nh1 = nh\<lparr>pos := pos nh + hdrsize\<rparr>;
             vlh = pos nh1;
             h_proto = eth_h_proto m eth;
             (i, vlh', h_proto') = parse_ethhdr_loop m dend 0 vlh h_proto
         in (uint (bpf_ntohs h_proto'), nh1\<lparr>pos := vlh'\<rparr>)))"

definition parse_ip6hdr :: "memory \<Rightarrow> hdr_cursor \<Rightarrow> addr \<Rightarrow> int \<times> hdr_cursor" where
  "parse_ip6hdr m nh dend =
     (let ip6h = pos nh in
      if ip6h + sizeof_ipv6hdr > dend then (- 1, nh)
      else (uint (ip6h_nexthdr m ip6h), nh\<lparr>pos := ip6h + sizeof_ipv6hdr\<rparr>))"

definition parse_iphdr :: "memory \<Rightarrow> hdr_cursor \<Rightarrow> addr \<Rightarrow> int \<times> hdr_cursor" where
  "parse_iphdr m nh dend =
     (let iph = pos nh in
      if iph + sizeof_iphdr > dend then (- 1, nh)
      else
        (let hdrsize = iph_ihl m iph * 4 in
         if pos nh + hdrsize > dend then (- 1, nh)
         else (uint (iph_protocol m iph), nh\<lparr>pos := pos nh + hdrsize\<rparr>)))"

definition parse_icmp6hdr :: "memory \<Rightarrow> hdr_cursor \<Rightarrow> addr \<Rightarrow> int \<times> hdr_cursor" where
  "parse_icmp6hdr m nh dend =
     (let icmp6h = pos nh in
      if icmp6h + sizeof_icmp6hdr > dend then (- 1, nh)
      else (uint (icmph_type m icmp6h), nh\<lparr>pos := icmp6h + sizeof_icmp6hdr\<rparr>))"

definition parse_icmphdr :: "memory \<Rightarrow> hdr_cursor \<Rightarrow> addr \<Rightarrow> int \<times> hdr_cursor" where
  "parse_icmphdr m nh dend =
     (let icmph = pos nh in
      if icmph + sizeof_icmphdr > dend then (- 1, nh)
      else (uint (icmph_type m icmph), nh\<lparr>pos := icmph + sizeof_icmphdr\<rparr>))"

section \<open>Verdicts and the external helpers\<close>

text \<open>
  \<open>enum xdp_action\<close>.  A redirect carries the key its target was looked up with, so
  that the verdict of a program is one value, as in the specification's
  \<open>Redirect(interface)\<close>.
\<close>

datatype xdp_action = XDP_ABORTED | XDP_DROP | XDP_PASS | XDP_TX | XDP_REDIRECT u32

text \<open>
  \<open>struct bpf_fib_lookup\<close>, the key handed to the FIB resolver and the place where
  it leaves its answer.  The members of each union (\<open>tos\<close>/\<open>flowinfo\<close>, the IPv4
  and IPv6 addresses) are separate fields here; the router writes one member of each
  on any path.
\<close>

record bpf_fib_lookup =
  family :: u8
  l4_protocol :: u8
  sport :: u16
  dport :: u16
  tot_len :: u16
  ifindex :: u32
  tos :: u8
  flowinfo :: u32
  ipv4_src :: u32
  ipv4_dst :: u32
  ipv6_src :: "u8 list"
  ipv6_dst :: "u8 list"
  smac :: "u8 list"
  dmac :: "u8 list"

text \<open>
  The return codes of the resolver, the nine that the \<open>switch\<close> of the router lists.
  (The \<open>switch\<close> has no default: on any other value \<open>action\<close> would keep its
  initial \<open>XDP_PASS\<close>.)
\<close>

datatype fib_lkup_ret =
    BPF_FIB_LKUP_RET_SUCCESS
  | BPF_FIB_LKUP_RET_BLACKHOLE
  | BPF_FIB_LKUP_RET_UNREACHABLE
  | BPF_FIB_LKUP_RET_PROHIBIT
  | BPF_FIB_LKUP_RET_NOT_FWDED
  | BPF_FIB_LKUP_RET_FWD_DISABLED
  | BPF_FIB_LKUP_RET_UNSUPP_LWT
  | BPF_FIB_LKUP_RET_NO_NEIGH
  | BPF_FIB_LKUP_RET_FRAG_NEEDED

text \<open>
  The state outside the packet: the actions handed to the statistics collector and
  the keys handed to the FIB resolver, in call order.
\<close>

record kstate =
  stats_calls :: "xdp_action list"
  fib_calls :: "bpf_fib_lookup list"

text \<open>
  Modelled from the spec: \<open>xdp_stats_record_action\<close> of \<open>common/xdp_stats_kern.h\<close> is
  not among the sources.  The specification gives the collector as
  \<open>record(verdict) -> void\<close>, one counter increment keyed by the action; the programs
  return what the call returns, which is the action recorded.
\<close>

definition xdp_stats_record_action ::
  "xdp_md \<Rightarrow> kstate \<Rightarrow> xdp_action \<Rightarrow> xdp_action \<times> xdp_md \<times> kstate" where
  "xdp_stats_record_action ctx ks action =
     (action, ctx, ks\<lparr>stats_calls := stats_calls ks @ [action]\<rparr>)"

text \<open>
  Modelled from the spec: the kernel helper \<open>bpf_xdp_adjust_head\<close> is not among the
  sources.  The specification's packet buffer keeps \<open>head <= tail\<close>, its head moves
  backward (grow) or forward (shrink) only through this operation, and the operation
  may fail; a failed call leaves the buffer as it was.  The helper returns 0 on
  success and a negative value on failure.
\<close>

definition bpf_xdp_adjust_head :: "xdp_md \<Rightarrow> int \<Rightarrow> int \<times> xdp_md" where
  "bpf_xdp_adjust_head ctx delta =
     (let d = int (data ctx) + delta in
      if d < 0 \<or> int (data_end ctx) < d then (- 1, ctx)
      else (0, ctx\<lparr>data := nat d\<rparr>))"

text \<open>
  The kernel's FIB is a parameter: a resolver maps the key to a return code and the
  key with the answer filled in (\<open>ifindex\<close>, \<open>smac\<close>, \<open>dmac\<close> on success).
  \<open>bpf_fib_lookup\<close> calls it and notes the call.
\<close>

type_synonym fib_resolver = "bpf_fib_lookup \<Rightarrow> fib_lkup_ret \<times> bpf_fib_lookup"

definition bpf_fib_lookup ::
  "fib_resolver \<Rightarrow> kstate \<Rightarrow> bpf_fib_lookup \<Rightarrow> fib_lkup_ret \<times> bpf_fib_lookup \<times> kstate" where
  "bpf_fib_lookup fib ks params =
     (let (rc, params') = fib params
      in (rc, params', ks\<lparr>fib_calls := fib_calls ks @ [params]\<rparr>))"

text \<open>
  Modelled from the spec: the kernel helper \<open>bpf_redirect_map\<close> and the device map
  \<open>tx_port\<close> are not among the sources.  The specification's verdict for a
  redirect is \<open>Redirect(interface)\<close>, the interface being looked up in the egress
  table under the given key.
\<close>

definition bpf_redirect_map :: "u32 \<Rightarrow> xdp_action" where
  "bpf_redirect_map key = XDP_REDIRECT key"

section \<open>VLAN tag push and pop\<close>

subsection \<open>\<open>packet-solutions/xdp_prog_kern.c\<close>\<close>

definition vlan_tag_pop :: "xdp_md \<Rightarrow> addr \<Rightarrow> int \<times> xdp_md" where
  "vlan_tag_pop ctx eth =
     (let dend = data_end ctx in
      if \<not> proto_is_vlan (eth_h_proto (mem ctx) eth) then (- 1, ctx)
      else
        (let vlh = eth + sizeof_ethhdr in
         if vlh + sizeof_vlan_hdr > dend then (- 1, ctx)
         else
           (let vlid = uint (bpf_ntohs (h_vlan_TCI (mem ctx) vlh));
                h_proto = h_vlan_encapsulated_proto (mem ctx) vlh;
                eth_cpy = load_bytes (mem ctx) eth sizeof_ethhdr;
                (rc, ctx1) = bpf_xdp_adjust_head ctx (int sizeof_vlan_hdr)
            in if rc \<noteq> 0 then (- 1, ctx1)
               else
                 (let eth = data ctx1; dend = data_end ctx1 in
                  if eth + sizeof_ethhdr > dend then (- 1, ctx1)
                  else
                    (let m1 = store_bytes (mem ctx1) eth sizeof_ethhdr eth_cpy;
                         m2 = store16 m1 (eth + 12) h_proto
                     in (vlid, ctx1\<lparr>mem := m2\<rparr>))))))"

definition vlan_tag_push :: "xdp_md \<Rightarrow> addr \<Rightarrow> int \<Rightarrow> int \<times> xdp_md" where
  "vlan_tag_push ctx eth vlid =
     (let eth_cpy = load_bytes (mem ctx) eth sizeof_ethhdr;
          (rc, ctx1) = bpf_xdp_adjust_head ctx (0 - int sizeof_vlan_hdr)
      in if rc \<noteq> 0 then (- 1, ctx1)
         else
           (let dend = data_end ctx1; eth = data ctx1 in
            if eth + sizeof_ethhdr > dend then (- 1, ctx1)
            else
              (let m1 = store_bytes (mem ctx1) eth sizeof_ethhdr eth_cpy;
                   vlh = eth + sizeof_ethhdr
               in if vlh + sizeof_vlan_hdr > dend then (- 1, ctx1\<lparr>mem := m1\<rparr>)
                  else
                    (let m2 = store16 m1 vlh (bpf_htons (word_of_int vlid));
                         m3 = store16 m2 (vlh + 2) (eth_h_proto m2 eth);
                         m4 = store16 m3 (eth + 12) (bpf_htons ETH_P_8021Q)
                     in (0, ctx1\<lparr>mem := m4\<rparr>)))))"

definition xdp_vlan_swap_func ::
  "xdp_md \<Rightarrow> kstate \<Rightarrow> xdp_action \<times> xdp_md \<times> kstate" where
  "xdp_vlan_swap_func ctx ks =
     (let dend = data_end ctx; nh = \<lparr>pos = data ctx\<rparr>; eth = pos nh;
          (nh_type, nh1) = parse_ethhdr (mem ctx) nh dend
      in if nh_type < 0 then (XDP_PASS, ctx, ks)
         else if proto_is_vlan (eth_h_proto (mem ctx) eth)
         then (let (r, ctx1) = vlan_tag_pop ctx eth in (XDP_PASS, ctx1, ks))
         else (let (r, ctx1) = vlan_tag_push ctx eth 1 in (XDP_PASS, ctx1, ks)))"

subsection \<open>\<open>packet02-rewriting/xdp_prog_kern.c\<close>\<close>

text \<open>
  The lesson's own versions copy the Ethernet header as a struct
  (\<open>eth_cpy = *eth\<close>); \<open>eth_cpy.h_proto = ...\<close> sets bytes 12 and 13 of the copy.
\<close>

definition p02_vlan_tag_pop :: "xdp_md \<Rightarrow> addr \<Rightarrow> int \<times> xdp_md" where
  "p02_vlan_tag_pop ctx eth =
     (let dend = data_end ctx; vlh = eth + sizeof_ethhdr in
      if \<not> proto_is_vlan (eth_h_proto (mem ctx) eth) then (- 1, ctx)
      else if vlh + sizeof_vlan_hdr > dend then (- 1, ctx)
      else
        (let eth_cpy = load_bytes (mem ctx) eth sizeof_ethhdr;
             vlid = uint (bpf_ntohs (h_vlan_TCI (mem ctx) vlh));
             h_proto = h_vlan_encapsulated_proto (mem ctx) vlh;
             eth_cpy = eth_cpy[12 := ucast h_proto, 13 := ucast (drop_bit 8 h_proto)];
             (rc, ctx1) = bpf_xdp_adjust_head ctx (int sizeof_vlan_hdr)
         in if rc \<noteq> 0 then (- 1, ctx1)
            else
              (let eth = data ctx1; dend = data_end ctx1 in
               if eth + sizeof_ethhdr > dend then (- 1, ctx1)
               else (vlid, ctx1\<lparr>mem := store_bytes (mem ctx1) eth sizeof_ethhdr eth_cpy\<rparr>))))"

definition p02_vlan_tag_push :: "xdp_md \<Rightarrow> addr \<Rightarrow> int \<Rightarrow> int \<times> xdp_md" where
  "p02_vlan_tag_push ctx eth vlid =
     (if proto_is_vlan (eth_h_proto (mem ctx) eth) then (- 1, ctx)
      else
        (let eth_cpy = load_bytes (mem ctx) eth sizeof_ethhdr;
             (rc, ctx1) = bpf_xdp_adjust_head ctx (- int sizeof_vlan_hdr)
         in if rc \<noteq> 0 then (- 1, ctx1)
            else
              (let eth = data ctx1; dend = data_end ctx1 in
               if eth + sizeof_ethhdr > dend then (- 1, ctx1)
               else
                 (let m1 = store_bytes (mem ctx1) eth sizeof_ethhdr eth_cpy;
                      vlh = eth + sizeof_ethhdr
                  in if vlh + sizeof_vlan_hdr > dend then (- 1, ctx1\<lparr>mem := m1\<rparr>)
                     else
                       (let m2 = store16 m1 vlh (bpf_htons (word_of_int vlid));
                            m3 = store16 m2 (vlh + 2) (eth_h_proto m2 eth);
                            m4 = store16 m3 (eth + 12) (bpf_htons ETH_P_8021Q)
                        in (0, ctx1\<lparr>mem := m4\<rparr>))))))"

definition p02_xdp_vlan_swap_func ::
  "xdp_md \<Rightarrow> kstate \<Rightarrow> xdp_action \<times> xdp_md \<times> kstate" where
  "p02_xdp_vlan_swap_func ctx ks =
     (let dend = data_end ctx; nh = \<lparr>pos = data ctx\<rparr>; eth = pos nh;
          (nh_type, nh1) = parse_ethhdr (mem ctx) nh dend
      in if nh_type < 0 then (XDP_PASS, ctx, ks)
         else if proto_is_vlan (eth_h_proto (mem ctx) eth)
         then (let (r, ctx1) = p02_vlan_tag_pop ctx eth in (XDP_PASS, ctx1, ks))
         else (let (r, ctx1) = p02_vlan_tag_push ctx eth 1 in (XDP_PASS, ctx1, ks)))"

section \<open>ICMP echo responder (\<open>packet-solutions\<close>)\<close>

definition swap_src_dst_mac :: "memory \<Rightarrow> addr \<Rightarrow> memory" where
  "swap_src_dst_mac m eth =
     (let h_tmp = load_bytes m (eth + 6) ETH_ALEN;
          m1 = store_bytes m (eth + 6) ETH_ALEN (load_bytes m eth ETH_ALEN)
      in store_bytes m1 eth ETH_ALEN h_tmp)"

definition swap_src_dst_ipv6 :: "memory \<Rightarrow> addr \<Rightarrow> memory" where
  "swap_src_dst_ipv6 m ipv6 =
     (let tmp = load_bytes m (ipv6 + 8) 16;
          m1 = store_bytes m (ipv6 + 8) 16 (load_bytes m (ipv6 + 24) 16)
      in store_bytes m1 (ipv6 + 24) 16 tmp)"

definition swap_src_dst_ipv4 :: "memory \<Rightarrow> addr \<Rightarrow> memory" where
  "swap_src_dst_ipv4 m iphdr =
     (let tmp = load32 m (iphdr + 12);
          m1 = store32 m (iphdr + 12) (load32 m (iphdr + 16))
      in store32 m1 (iphdr + 16) tmp)"

definition csum16_add :: "u16 \<Rightarrow> u16 \<Rightarrow> u16" where
  "csum16_add csum addend =
     (let csum = csum + addend in csum + (if csum < addend then 1 else 0))"

text \<open>
  Lines 225 to 237 of \<open>xdp_icmp_echo_func\<close>: swap the MAC addresses, patch the ICMP
  type, update the checksum (at offset 2 of the ICMP header) and transmit.
\<close>

definition xdp_icmp_echo_patch ::
  "xdp_md \<Rightarrow> kstate \<Rightarrow> memory \<Rightarrow> addr \<Rightarrow> addr \<Rightarrow> u8 \<Rightarrow> xdp_action \<times> xdp_md \<times> kstate" where
  "xdp_icmp_echo_patch ctx ks m eth icmphdr echo_reply =
     (let m1 = swap_src_dst_mac m eth;
          m0 = load16 m1 icmphdr;
          m2 = m1(icmphdr := echo_reply);
          m1' = load16 m2 icmphdr;
          m3 = store16 m2 (icmphdr + 2)
                 (NOT (csum16_add (csum16_add (NOT (load16 m2 (icmphdr + 2))) (NOT m0)) m1'));
          action = XDP_TX
      in xdp_stats_record_action (ctx\<lparr>mem := m3\<rparr>) ks action)"

text \<open>Lines 212 to 223: parse the ICMP header and choose the reply type.\<close>

definition xdp_icmp_echo_icmp ::
  "xdp_md \<Rightarrow> kstate \<Rightarrow> int \<Rightarrow> addr \<Rightarrow> addr \<Rightarrow> hdr_cursor \<Rightarrow> xdp_action \<Rightarrow>
     xdp_action \<times> xdp_md \<times> kstate" where
  "xdp_icmp_echo_icmp ctx ks eth_type eth l3hdr nh action =
     (let icmphdr = pos nh;
          (icmp_type, nh1) = parse_icmphdr (mem ctx) nh (data_end ctx)
      in if eth_type = uint ETH_P_IP \<and> icmp_type = uint ICMP_ECHO
         then xdp_icmp_echo_patch ctx ks (swap_src_dst_ipv4 (mem ctx) l3hdr) eth icmphdr
                ICMP_ECHOREPLY
         else if eth_type = uint ETH_P_IPV6 \<and> icmp_type = uint ICMPV6_ECHO_REQUEST
         then xdp_icmp_echo_patch ctx ks (swap_src_dst_ipv6 (mem ctx) l3hdr) eth icmphdr
                ICMPV6_ECHO_REPLY
         else xdp_stats_record_action ctx ks action)"

definition xdp_icmp_echo_func ::
  "xdp_md \<Rightarrow> kstate \<Rightarrow> xdp_action \<times> xdp_md \<times> kstate" where
  "xdp_icmp_echo_func ctx ks =
     (let dend = data_end ctx; action = XDP_PASS;
          nh = \<lparr>pos = data ctx\<rparr>; eth = pos nh;
          (eth_type, nh1) = parse_ethhdr (mem ctx) nh dend
      in if eth_type = uint ETH_P_IP then
           (let iphdr = pos nh1; (ip_type, nh2) = parse_iphdr (mem ctx) nh1 dend
            in if ip_type \<noteq> IPPROTO_ICMP then xdp_stats_record_action ctx ks action
               else xdp_icmp_echo_icmp ctx ks eth_type eth iphdr nh2 action)
         else if eth_type = uint ETH_P_IPV6 then
           (let ipv6hdr = pos nh1; (ip_type, nh2) = parse_ip6hdr (mem ctx) nh1 dend
            in if ip_type \<noteq> IPPROTO_ICMPV6 then xdp_stats_record_action ctx ks action
               else xdp_icmp_echo_icmp ctx ks eth_type eth ipv6hdr nh2 action)
         else xdp_stats_record_action ctx ks action)"

section \<open>Router (\<open>packet-solutions\<close>)\<close>

definition AF_INET :: u8 where "AF_INET = 2"
definition AF_INET6 :: u8 where "AF_INET6 = 10"

definition bpf_htonl :: "u32 \<Rightarrow> u32" where
  "bpf_htonl x = push_bit 24 x OR (push_bit 8 x AND 0xFF0000)
                 OR (drop_bit 8 x AND 0xFF00) OR drop_bit 24 x"

definition IPV6_FLOWINFO_MASK :: u32 where
  "IPV6_FLOWINFO_MASK = bpf_htonl 0x0FFFFFFF"

text \<open>\<open>struct bpf_fib_lookup fib_params = {}\<close>.\<close>

definition fib_params_zero :: bpf_fib_lookup where
  "fib_params_zero =
     \<lparr>family = 0, l4_protocol = 0, sport = 0, dport = 0, tot_len = 0, ifindex = 0,
      tos = 0, flowinfo = 0, ipv4_src = 0, ipv4_dst = 0,
      ipv6_src = replicate 16 0, ipv6_dst = replicate 16 0,
      smac = replicate 6 0, dmac = replicate 6 0\<rparr>"

text \<open>
  \<open>ip_decrease_ttl\<close>: the checksum field is at offset 10 of the IPv4 header, the TTL
  at offset 8.  The function's result, the new TTL, is not used by its caller.
\<close>

definition ip_decrease_ttl :: "memory \<Rightarrow> addr \<Rightarrow> memory" where
  "ip_decrease_ttl m iph =
     (let check = (ucast (load16 m (iph + 10)) :: u32);
          check = check + ucast (bpf_htons 0x0100);
          m1 = store16 m (iph + 10) (ucast (check + (if check \<ge> 0xFFFF then 1 else 0)))
      in m1(iph + 8 := m1 (iph + 8) - 1))"

text \<open>
  Lines 381 to 410 of \<open>xdp_router_func\<close>: the lookup and the \<open>switch\<close> on its
  result.  \<open>iph\<close> and \<open>ip6h\<close> both are \<open>data + nh_off\<close> where they are set.
\<close>

definition xdp_router_lookup ::
  "fib_resolver \<Rightarrow> xdp_md \<Rightarrow> kstate \<Rightarrow> u16 \<Rightarrow> bpf_fib_lookup \<Rightarrow> xdp_action \<Rightarrow>
     xdp_action \<times> xdp_md \<times> kstate" where
  "xdp_router_lookup fib ctx ks h_proto fib_params action =
     (let eth = data ctx; iph = data ctx + sizeof_ethhdr; ip6h = data ctx + sizeof_ethhdr;
          fib_params = fib_params\<lparr>ifindex := ingress_ifindex ctx\<rparr>;
          (rc, fib_params, ks1) = bpf_fib_lookup fib ks fib_params
      in case rc of
           BPF_FIB_LKUP_RET_SUCCESS \<Rightarrow>
             (let m1 = (if h_proto = bpf_htons ETH_P_IP then ip_decrease_ttl (mem ctx) iph
                        else if h_proto = bpf_htons ETH_P_IPV6
                        then (mem ctx)(ip6h + 7 := mem ctx (ip6h + 7) - 1)
                        else mem ctx);
                  m2 = store_bytes m1 eth ETH_ALEN (dmac fib_params);
                  m3 = store_bytes m2 (eth + 6) ETH_ALEN (smac fib_params);
                  action = bpf_redirect_map (ifindex fib_params)
              in xdp_stats_record_action (ctx\<lparr>mem := m3\<rparr>) ks1 action)
         | BPF_FIB_LKUP_RET_BLACKHOLE \<Rightarrow> xdp_stats_record_action ctx ks1 XDP_DROP
         | BPF_FIB_LKUP_RET_UNREACHABLE \<Rightarrow> xdp_stats_record_action ctx ks1 XDP_DROP
         | BPF_FIB_LKUP_RET_PROHIBIT \<Rightarrow> xdp_stats_record_action ctx ks1 XDP_DROP
         | BPF_FIB_LKUP_RET_NOT_FWDED \<Rightarrow> xdp_stats_record_action ctx ks1 action
         | BPF_FIB_LKUP_RET_FWD_DISABLED \<Rightarrow> xdp_stats_record_action ctx ks1 action
         | BPF_FIB_LKUP_RET_UNSUPP_LWT \<Rightarrow> xdp_stats_record_action ctx ks1 action
         | BPF_FIB_LKUP_RET_NO_NEIGH \<Rightarrow> xdp_stats_record_action ctx ks1 action
         | BPF_FIB_LKUP_RET_FRAG_NEEDED \<Rightarrow> xdp_stats_record_action ctx ks1 action)"

definition xdp_router_func ::
  "fib_resolver \<Rightarrow> xdp_md \<Rightarrow> kstate \<Rightarrow> xdp_action \<times> xdp_md \<times> kstate" where
  "xdp_router_func fib ctx ks =
     (let dend = data_end ctx; d = data ctx; m = mem ctx;
          fib_params = fib_params_zero; eth = d; action = XDP_PASS;
          nh_off = sizeof_ethhdr
      in if d + nh_off > dend then xdp_stats_record_action ctx ks XDP_DROP
         else
           (let h_proto = eth_h_proto m eth in
            if h_proto = bpf_htons ETH_P_IP then
              (let iph = d + nh_off in
               if iph + sizeof_iphdr > dend then xdp_stats_record_action ctx ks XDP_DROP
               else if iph_ttl m iph \<le> 1 then xdp_stats_record_action ctx ks action
               else xdp_router_lookup fib ctx ks h_proto
                      (fib_params\<lparr>family := AF_INET, tos := m (iph + 1),
                         l4_protocol := iph_protocol m iph, sport := 0, dport := 0,
                         tot_len := bpf_ntohs (load16 m (iph + 2)),
                         ipv4_src := load32 m (iph + 12),
                         ipv4_dst := load32 m (iph + 16)\<rparr>) action)
            else if h_proto = bpf_htons ETH_P_IPV6 then
              (let ip6h = d + nh_off in
               if ip6h + sizeof_ipv6hdr > dend then xdp_stats_record_action ctx ks XDP_DROP
               else if ip6h_hop_limit m ip6h \<le> 1 then xdp_stats_record_action ctx ks action
               else xdp_router_lookup fib ctx ks h_proto
                      (fib_params\<lparr>family := AF_INET6,
                         flowinfo := load32 m ip6h AND IPV6_FLOWINFO_MASK,
                         l4_protocol := ip6h_nexthdr m ip6h, sport := 0, dport := 0,
                         tot_len := bpf_ntohs (load16 m (ip6h + 4)),
                         ipv6_src := load_bytes m (ip6h + 8) 16,
                         ipv6_dst := load_bytes m (ip6h + 24) 16\<rparr>) action)
            else xdp_stats_record_action ctx ks action))"

definition xdp_pass_func :: "xdp_md \<Rightarrow> kstate \<Rightarrow> xdp_action \<times> xdp_md \<times> kstate" where
  "xdp_pass_func ctx ks = (XDP_PASS, ctx, ks)"

section \<open>The programs of \<open>packet02-rewriting\<close>\<close>

text \<open>
  \<open>parse_tcphdr\<close> and \<open>parse_udphdr\<close> decrement the destination port (offset 2
  of either header) once the header is known to fit; they return the memory too.
\<close>

definition parse_tcphdr :: "memory \<Rightarrow> hdr_cursor \<Rightarrow> addr \<Rightarrow> int \<times> hdr_cursor \<times> memory" where
  "parse_tcphdr m nh dend =
     (let tcph = pos nh in
      if tcph + sizeof_tcphdr > dend then (- 1, nh, m)
      else (0, nh\<lparr>pos := tcph + sizeof_tcphdr\<rparr>,
            store16 m (tcph + 2) (bpf_htons (bpf_ntohs (load16 m (tcph + 2)) - 1))))"

definition parse_udphdr :: "memory \<Rightarrow> hdr_cursor \<Rightarrow> addr \<Rightarrow> int \<times> hdr_cursor \<times> memory" where
  "parse_udphdr m nh dend =
     (let udph = pos nh in
      if udph + sizeof_udphdr > dend then (- 1, nh, m)
      else (0, nh\<lparr>pos := udph + sizeof_udphdr\<rparr>,
            store16 m (udph + 2) (bpf_htons (bpf_ntohs (load16 m (udph + 2)) - 1))))"

text \<open>The labels \<open>parse_tcp\<close> and \<open>parse_udp\<close> of \<open>xdp_port_rewrite_func\<close>.\<close>

definition port_rewrite_tcp ::
  "xdp_md \<Rightarrow> kstate \<Rightarrow> hdr_cursor \<Rightarrow> xdp_action \<times> xdp_md \<times> kstate" where
  "port_rewrite_tcp ctx ks nh =
     (let (r, nh1, m1) = parse_tcphdr (mem ctx) nh (data_end ctx)
      in (XDP_PASS, ctx\<lparr>mem := m1\<rparr>, ks))"

definition port_rewrite_udp ::
  "xdp_md \<Rightarrow> kstate \<Rightarrow> hdr_cursor \<Rightarrow> xdp_action \<times> xdp_md \<times> kstate" where
  "port_rewrite_udp ctx ks nh =
     (let (r, nh1, m1) = parse_udphdr (mem ctx) nh (data_end ctx)
      in (XDP_PASS, ctx\<lparr>mem := m1\<rparr>, ks))"

text \<open>
  When the frame is neither IPv6 nor IPv4, control falls from the \<open>if\<close> into the
  label \<open>parse_tcp\<close>.
\<close>

definition xdp_port_rewrite_func ::
  "xdp_md \<Rightarrow> kstate \<Rightarrow> xdp_action \<times> xdp_md \<times> kstate" where
  "xdp_port_rewrite_func ctx ks =
     (let dend = data_end ctx; nh = \<lparr>pos = data ctx\<rparr>;
          (nh_type, nh1) = parse_ethhdr (mem ctx) nh dend
      in if nh_type = uint ETH_P_IPV6 then
           (let (nh_type, nh2) = parse_ip6hdr (mem ctx) nh1 dend
            in if nh_type = IPPROTO_TCP then port_rewrite_tcp ctx ks nh2
               else if nh_type = IPPROTO_UDP then port_rewrite_udp ctx ks nh2
               else (XDP_PASS, ctx, ks))
         else if nh_type = uint ETH_P_IP then
           (let (nh_type, nh2) = parse_iphdr (mem ctx) nh1 dend
            in if nh_type = IPPROTO_TCP then port_rewrite_tcp ctx ks nh2
               else if nh_type = IPPROTO_UDP then port_rewrite_udp ctx ks nh2
               else (XDP_PASS, ctx, ks))
         else port_rewrite_tcp ctx ks nh1)"

text \<open>
  \<open>xdp_parser_func\<close>: drop ICMP and ICMPv6 echo requests with an even sequence
  number (a big-endian field at offset 6 of either header).
\<close>

definition xdp_parser_func :: "xdp_md \<Rightarrow> kstate \<Rightarrow> xdp_action \<times> xdp_md \<times> kstate" where
  "xdp_parser_func ctx ks =
     (let dend = data_end ctx; m = mem ctx; action = XDP_PASS;
          nh = \<lparr>pos = data ctx\<rparr>;
          (nh_type, nh1) = parse_ethhdr m nh dend
      in if nh_type = uint ETH_P_IPV6 then
           (let (nh_type, nh2) = parse_ip6hdr m nh1 dend
            in if nh_type \<noteq> IPPROTO_ICMPV6 then xdp_stats_record_action ctx ks action
               else
                 (let icmp6h = pos nh2; (nh_type, nh3) = parse_icmp6hdr m nh2 dend
                  in if nh_type \<noteq> uint ICMPV6_ECHO_REQUEST
                     then xdp_stats_record_action ctx ks action
                     else if unat (bpf_ntohs (load16 m (icmp6h + 6))) mod 2 = 0
                     then xdp_stats_record_action ctx ks XDP_DROP
                     else xdp_stats_record_action ctx ks action))
         else if nh_type = uint ETH_P_IP then
           (let (nh_type, nh2) = parse_iphdr m nh1 dend
            in if nh_type \<noteq> IPPROTO_ICMP then xdp_stats_record_action ctx ks action
               else
                 (let icmph = pos nh2; (nh_type, nh3) = parse_icmphdr m nh2 dend
                  in if nh_type \<noteq> uint ICMP_ECHO
                     then xdp_stats_record_action ctx ks action
                     else if unat (bpf_ntohs (load16 m (icmph + 6))) mod 2 = 0
                     then xdp_stats_record_action ctx ks XDP_DROP
                     else xdp_stats_record_action ctx ks action))
         else xdp_stats_record_action ctx ks action)"

section \<open>Full recomputation of the Internet checksum\<close>

text \<open>
  The specification compares the incremental update with "a full recomputation over
  the header": the 16-bit words are added up, the carries out of the low 16 bits
  are added back in until none is left, and the result is complemented.
\<close>

function fold_carry :: "nat \<Rightarrow> nat" where
  "fold_carry n = (if n < 65536 then n else fold_carry (n div 65536 + n mod 65536))"
  by pat_completeness auto
termination
proof (relation "measure (\<lambda>n. n)")
  fix n :: nat
  assume "\<not> n < 65536"
  then have "1 \<le> n div 65536"
    by (simp add: Suc_leI div_greater_zero_iff)
  moreover have "n = 65536 * (n div 65536) + n mod 65536"
    by simp
  ultimately have "n div 65536 + n mod 65536 < n"
    by linarith
  then show "(n div 65536 + n mod 65536, n) \<in> measure (\<lambda>n. n)"
    by simp
qed simp

definition csum_full :: "u16 list \<Rightarrow> u16" where
  "csum_full ws = NOT (word_of_nat (fold_carry (sum_list (map unat ws))))"

text \<open>
  The value the carry folding arrives at: 0 for 0, and otherwise the representative of
  \<open>n\<close> modulo 65535 that lies between 1 and 65535.
\<close>

definition ocn :: "nat \<Rightarrow> nat" where
  "ocn n = (if n = 0 then 0 else (n - 1) mod 65535 + 1)"

section \<open>The verdict mapping of the specification\<close>

text \<open>
  The specification's table from forwarding outcomes to verdicts, to be compared with
  the \<open>switch\<close> of \<open>xdp_router_func\<close>: success redirects to the egress interface;
  blackhole, unreachable and prohibited drop; every other outcome passes.
\<close>

fun outcome_verdict :: "fib_lkup_ret \<Rightarrow> u32 \<Rightarrow> xdp_action" where
  "outcome_verdict BPF_FIB_LKUP_RET_SUCCESS egress_if = XDP_REDIRECT egress_if"
| "outcome_verdict BPF_FIB_LKUP_RET_BLACKHOLE egress_if = XDP_DROP"
| "outcome_verdict BPF_FIB_LKUP_RET_UNREACHABLE egress_if = XDP_DROP"
| "outcome_verdict BPF_FIB_LKUP_RET_PROHIBIT egress_if = XDP_DROP"
| "outcome_verdict BPF_FIB_LKUP_RET_NOT_FWDED egress_if = XDP_PASS"
| "outcome_verdict BPF_FIB_LKUP_RET_FWD_DISABLED egress_if = XDP_PASS"
| "outcome_verdict BPF_FIB_LKUP_RET_UNSUPP_LWT egress_if = XDP_PASS"
| "outcome_verdict BPF_FIB_LKUP_RET_NO_NEIGH egress_if = XDP_PASS"
| "outcome_verdict BPF_FIB_LKUP_RET_FRAG_NEEDED egress_if = XDP_PASS"

section \<open>Example packets\<close>

text \<open>
  A context over the given bytes: the frame starts at address \<open>d\<close> (the bytes before
  it are headroom) and ends with the list.
\<close>

definition ctx_of :: "u8 list \<Rightarrow> addr \<Rightarrow> xdp_md" where
  "ctx_of bs d = \<lparr>mem = mem_of bs, data = d, data_end = length bs, ingress_ifindex = 3\<rparr>"

definition ks_empty :: kstate where
  "ks_empty = \<lparr>stats_calls = [], fib_calls = []\<rparr>"

text \<open>
  Ethernet, IPv4 (20 bytes, the given TTL, protocol ICMP) and an ICMP echo request
  with identifier 1 and sequence number 7; 42 bytes.
\<close>

definition ex_ipv4_frame :: "u8 \<Rightarrow> u8 list" where
  "ex_ipv4_frame ttl =
     [0x02, 0, 0, 0, 0, 0x01,  0x02, 0, 0, 0, 0, 0x02,  0x08, 0x00,
      0x45, 0x00, 0x00, 0x1C, 0x00, 0x00, 0x00, 0x00, ttl, 0x01, 0x66, 0xDF,
      0x0A, 0x00, 0x00, 0x01,  0x0A, 0x00, 0x00, 0x02,
      0x08, 0x00, 0xF7, 0xF7, 0x00, 0x01, 0x00, 0x07]"

text \<open>Ethernet and a bare IPv6 header (40 bytes, the given hop limit); 54 bytes.\<close>

definition ex_ipv6_frame :: "u8 \<Rightarrow> u8 list" where
  "ex_ipv6_frame hop =
     [0x02, 0, 0, 0, 0, 0x01,  0x02, 0, 0, 0, 0, 0x02,  0x86, 0xDD,
      0x60, 0x00, 0x00, 0x00, 0x00, 0x00, 0x3B, hop,
      0xFE, 0x80, 0, 0, 0, 0, 0, 0, 0, 0, 0, 0, 0, 0, 0, 0x01,
      0xFE, 0x80, 0, 0, 0, 0, 0, 0, 0, 0, 0, 0, 0, 0, 0, 0x02]"

text \<open>An IPv4 header announcing a length of two words (\<open>ihl = 2\<close>), protocol TCP.\<close>

definition ex_ihl2_frame :: "u8 list" where
  "ex_ihl2_frame =
     [0x02, 0, 0, 0, 0, 0x01,  0x02, 0, 0, 0, 0, 0x02,  0x08, 0x00,
      0x42, 0x00, 0x00, 0x1C, 0x00, 0x00, 0x00, 0x00, 0x40, 0x06, 0x00, 0x00,
      0x0A, 0x00, 0x00, 0x01,  0x0A, 0x00, 0x00, 0x02]"

text \<open>Six stacked VLAN tags in front of an IPv4 ethertype; 40 bytes.\<close>

definition ex_vlan6_frame :: "u8 list" where
  "ex_vlan6_frame =
     [0x02, 0, 0, 0, 0, 0x01,  0x02, 0, 0, 0, 0, 0x02,  0x81, 0x00,
      0x00, 0x01, 0x88, 0xA8,  0x00, 0x02, 0x81, 0x00,  0x00, 0x03, 0x81, 0x00,
      0x00, 0x04, 0x81, 0x00,  0x00, 0x05, 0x81, 0x00,  0x00, 0x06, 0x08, 0x00,
      0x45, 0x00]"

text \<open>
  One tag with VLAN id 42 in front of an IPv4 ethertype, the tag's own ethertype
  given as two bytes; 20 bytes.
\<close>

definition ex_tagged_frame :: "u8 \<Rightarrow> u8 \<Rightarrow> u8 list" where
  "ex_tagged_frame t1 t2 =
     [0x02, 0, 0, 0, 0, 0x01,  0x02, 0, 0, 0, 0, 0x02,  t1, t2,
      0x00, 0x2A, 0x08, 0x00,  0x45, 0x00]"

text \<open>A resolver that answers every key alike.\<close>

definition fib_const :: "fib_lkup_ret \<Rightarrow> fib_resolver" where
  "fib_const rc = (\<lambda>key. (rc, key\<lparr>ifindex := 7, smac := [0x0A, 1, 2, 3, 4, 5],
                                       dmac := [0x0B, 6, 7, 8, 9, 10]\<rparr>))"

text \<open>
  Contexts for the VLAN examples: the IPv4 frame behind four bytes of headroom, the
  same frame with no headroom, and the frames with one 802.1Q and one 802.1ad tag.
\<close>

definition ex_headroom_ctx :: xdp_md where
  "ex_headroom_ctx = ctx_of ([0, 0, 0, 0] @ ex_ipv4_frame 64) 4"

definition ex_ipv4_ctx :: xdp_md where
  "ex_ipv4_ctx = ctx_of (ex_ipv4_frame 64) 0"

definition ex_q_ctx :: xdp_md where
  "ex_q_ctx = ctx_of (ex_tagged_frame 0x81 0x00) 0"

definition ex_ad_ctx :: xdp_md where
  "ex_ad_ctx = ctx_of (ex_tagged_frame 0x88 0xA8) 0"

text \<open>
  An ICMP echo request whose identifier and sequence number are 0 and whose code is
  0, with the checksum that belongs to it (bytes F7 FF); as the IPv4 example otherwise.
\<close>

definition ex_zero_echo_frame :: "u8 list" where
  "ex_zero_echo_frame =
     [0x02, 0, 0, 0, 0, 0x01,  0x02, 0, 0, 0, 0, 0x02,  0x08, 0x00,
      0x45, 0x00, 0x00, 0x1C, 0x00, 0x00, 0x00, 0x00, 0x40, 0x01, 0x66, 0xDF,
      0x0A, 0x00, 0x00, 0x01,  0x0A, 0x00, 0x00, 0x02,
      0x08, 0x00, 0xF7, 0xFF, 0x00, 0x00, 0x00, 0x00]"

definition ex_zero_echo_ctx :: xdp_md where
  "ex_zero_echo_ctx = ctx_of ex_zero_echo_frame 0"


section \<open>Basic facts\<close>

declare parse_ethhdr_loop.simps [simp del]
declare fold_carry.simps [simp del]

lemmas sizes = sizeof_ethhdr_def sizeof_vlan_hdr_def sizeof_iphdr_def sizeof_ipv6hdr_def
  sizeof_icmphdr_def sizeof_icmp6hdr_def sizeof_tcphdr_def sizeof_udphdr_def

lemmas ethertypes = ETH_P_IP_def ETH_P_IPV6_def ETH_P_8021Q_def ETH_P_8021AD_def

lemma ntohs_htons: "bpf_ntohs (bpf_htons x) = x"
  unfolding bpf_ntohs_def bpf_htons_def
  by (rule bit_word_eqI) (auto simp: bit_simps)

lemma htons_ntohs: "bpf_htons (bpf_ntohs x) = x"
  unfolding bpf_ntohs_def bpf_htons_def
  by (rule bit_word_eqI) (auto simp: bit_simps)

lemma htons_ip_ne_ipv6: "bpf_htons ETH_P_IP \<noteq> bpf_htons ETH_P_IPV6"
  by (simp add: bpf_htons_def ethertypes)


lemma lo_load16: "ucast (load16 m a) = m a"
  unfolding load16_def
  by (rule bit_word_eqI) (auto simp: bit_simps)

lemma hi_load16: "ucast (drop_bit 8 (load16 m a)) = m (a + 1)"
  unfolding load16_def
  by (rule bit_word_eqI) (auto simp: bit_simps dest: bit_imp_le_length)

lemma bytes_to_u16:
  "push_bit 8 (ucast (ucast (drop_bit 8 v) :: u8)) OR ucast (ucast v :: u8) = (v :: u16)"
  by (rule bit_word_eqI) (auto simp: bit_simps)

lemma store16_apply:
  "store16 m a v x =
     (if x = a + 1 then ucast (drop_bit 8 v) else if x = a then ucast v else m x)"
  by (simp add: store16_def)

lemma store_bytes_load_bytes:
  "store_bytes m a n (load_bytes m' b n) x =
     (if a \<le> x \<and> x < a + n then m' (b + (x - a)) else m x)"
  by (auto simp: store_bytes_def load_bytes_def)

lemma frame_eqI:
  "data c = data c' \<Longrightarrow> data_end c = data_end c' \<Longrightarrow>
   (\<And>x. data c \<le> x \<Longrightarrow> x < data_end c \<Longrightarrow> mem c x = mem c' x) \<Longrightarrow> frame c = frame c'"
  by (simp add: frame_def)

section \<open>The parsers\<close>

lemma parse_ethhdr_loop_bound:
  "parse_ethhdr_loop m dend i vlh p = (i', vlh', p') \<Longrightarrow>
     i \<le> i' \<and> i' \<le> max i VLAN_MAX_DEPTH \<and> vlh' = vlh + sizeof_vlan_hdr * (i' - i)"
proof (induction m dend i vlh p rule: parse_ethhdr_loop.induct)
  case (1 m dend i vlh h_proto)
  show ?case
  proof (cases "i < VLAN_MAX_DEPTH \<and> proto_is_vlan h_proto \<and> \<not> vlh + sizeof_vlan_hdr > dend")
    case True
    with "1.prems" have
      "parse_ethhdr_loop m dend (i + 1) (vlh + sizeof_vlan_hdr)
         (h_vlan_encapsulated_proto m vlh) = (i', vlh', p')"
      by (simp add: parse_ethhdr_loop.simps[of m dend i])
    with True "1.IH" have
      "i + 1 \<le> i' \<and> i' \<le> max (i + 1) VLAN_MAX_DEPTH \<and>
       vlh' = vlh + sizeof_vlan_hdr + sizeof_vlan_hdr * (i' - (i + 1))"
      by simp
    moreover have
      "sizeof_vlan_hdr + sizeof_vlan_hdr * (i' - (i + 1)) = sizeof_vlan_hdr * (i' - i)"
      if "i + 1 \<le> i'"
    proof -
      from that have "i' - i = Suc (i' - (i + 1))" by simp
      then show ?thesis by simp
    qed
    ultimately show ?thesis using True by (auto simp: max_def)
  next
    case False
    with "1.prems" have "i' = i \<and> vlh' = vlh"
      by (auto simp: parse_ethhdr_loop.simps[of m dend i] split: if_splits)
    then show ?thesis by simp
  qed
qed

lemma parse_ethhdr_loop_from_0:
  "fst (parse_ethhdr_loop m dend 0 vlh p) \<le> VLAN_MAX_DEPTH \<and>
   fst (snd (parse_ethhdr_loop m dend 0 vlh p)) =
     vlh + sizeof_vlan_hdr * fst (parse_ethhdr_loop m dend 0 vlh p)"
proof -
  obtain i' vlh' p' where l: "parse_ethhdr_loop m dend 0 vlh p = (i', vlh', p')"
    by (cases "parse_ethhdr_loop m dend 0 vlh p")
  from parse_ethhdr_loop_bound[OF l] show ?thesis
    by (simp add: l)
qed

lemma parse_ethhdr_ok:
  assumes "pos nh + sizeof_ethhdr \<le> dend"
  shows "parse_ethhdr m nh dend =
     (uint (bpf_ntohs (snd (snd (parse_ethhdr_loop m dend 0 (pos nh + sizeof_ethhdr)
                                   (eth_h_proto m (pos nh)))))),
      nh\<lparr>pos := pos nh + sizeof_ethhdr + sizeof_vlan_hdr *
                   fst (parse_ethhdr_loop m dend 0 (pos nh + sizeof_ethhdr)
                          (eth_h_proto m (pos nh)))\<rparr>)"
proof -
  obtain i' vlh' p' where
    l: "parse_ethhdr_loop m dend 0 (pos nh + sizeof_ethhdr) (eth_h_proto m (pos nh)) =
      (i', vlh', p')"
    by (cases "parse_ethhdr_loop m dend 0 (pos nh + sizeof_ethhdr) (eth_h_proto m (pos nh))")
  from parse_ethhdr_loop_bound[OF l] have "vlh' = pos nh + sizeof_ethhdr + sizeof_vlan_hdr * i'"
    by simp
  then show ?thesis
    using assms by (simp add: parse_ethhdr_def Let_def l)
qed

lemma parse_ethhdr_five_tags:
  assumes fit: "pos nh + sizeof_ethhdr + VLAN_MAX_DEPTH * sizeof_vlan_hdr \<le> dend"
    and v0: "proto_is_vlan (eth_h_proto m (pos nh))"
    and v: "proto_is_vlan (h_vlan_encapsulated_proto m (pos nh + 14))"
      "proto_is_vlan (h_vlan_encapsulated_proto m (pos nh + 18))"
      "proto_is_vlan (h_vlan_encapsulated_proto m (pos nh + 22))"
      "proto_is_vlan (h_vlan_encapsulated_proto m (pos nh + 26))"
  shows "parse_ethhdr m nh dend =
     (uint (bpf_ntohs (h_vlan_encapsulated_proto m (pos nh + 30))), nh\<lparr>pos := pos nh + 34\<rparr>)"
proof -
  have "parse_ethhdr_loop m dend 0 (pos nh + 14) (eth_h_proto m (pos nh)) =
      (5, pos nh + 34, h_vlan_encapsulated_proto m (pos nh + 30))"
    using fit v0 v
    by (simp add: parse_ethhdr_loop.simps VLAN_MAX_DEPTH_def sizes add.assoc)
  then show ?thesis
    using fit by (simp add: parse_ethhdr_def Let_def sizes VLAN_MAX_DEPTH_def add.assoc)
qed

text \<open>
  C7.  Stacked-VLAN unrolling in \<open>parse_ethhdr\<close> runs at most \<open>VLAN_MAX_DEPTH = 5\<close>
  iterations, each moving the tag pointer by one tag, so the cursor never ends
  further than \<open>14 + 5 * 4\<close> bytes after the start of the Ethernet header.  When the
  Ethernet ethertype and the encapsulated ethertypes of the first four tags are
  VLAN ethertypes and five tags fit, the cursor ends exactly at offset \<open>14 + 5 * 4\<close>
  and the result is the encapsulated ethertype of the fifth tag, whatever it is.
\<close>

theorem vlan_unrolling_bounded:
  "fst (parse_ethhdr_loop m dend 0 vlh p) \<le> VLAN_MAX_DEPTH \<and>
   fst (snd (parse_ethhdr_loop m dend 0 vlh p)) =
     vlh + sizeof_vlan_hdr * fst (parse_ethhdr_loop m dend 0 vlh p) \<and>
   pos (snd (parse_ethhdr m nh dend)) \<le>
     pos nh + sizeof_ethhdr + VLAN_MAX_DEPTH * sizeof_vlan_hdr \<and>
   (pos nh + sizeof_ethhdr + VLAN_MAX_DEPTH * sizeof_vlan_hdr \<le> dend \<and>
    proto_is_vlan (eth_h_proto m (pos nh)) \<and>
    proto_is_vlan (h_vlan_encapsulated_proto m (pos nh + 14)) \<and>
    proto_is_vlan (h_vlan_encapsulated_proto m (pos nh + 18)) \<and>
    proto_is_vlan (h_vlan_encapsulated_proto m (pos nh + 22)) \<and>
    proto_is_vlan (h_vlan_encapsulated_proto m (pos nh + 26)) \<longrightarrow>
    parse_ethhdr m nh dend =
      (uint (bpf_ntohs (h_vlan_encapsulated_proto m (pos nh + 30))),
       nh\<lparr>pos := pos nh + sizeof_ethhdr + VLAN_MAX_DEPTH * sizeof_vlan_hdr\<rparr>))"
proof -
  have "pos (snd (parse_ethhdr m nh dend)) \<le>
      pos nh + sizeof_ethhdr + VLAN_MAX_DEPTH * sizeof_vlan_hdr"
  proof (cases "pos nh + sizeof_ethhdr \<le> dend")
    case True
    then show ?thesis
      using parse_ethhdr_loop_from_0[of m dend "pos nh + sizeof_ethhdr" "eth_h_proto m (pos nh)"]
      by (simp add: parse_ethhdr_ok sizes)
  next
    case False
    then show ?thesis by (simp add: parse_ethhdr_def Let_def)
  qed
  then show ?thesis
    using parse_ethhdr_loop_from_0[of m dend vlh p] parse_ethhdr_five_tags[of nh dend m]
    by (simp add: sizes VLAN_MAX_DEPTH_def)
qed

text \<open>
  On the frame with six tags the parser stops after the fifth, at offset 34, and
  returns 0x8100: the ethertype of the sixth tag, still a VLAN ethertype.
\<close>

theorem vlan_unrolling_bounded_witness:
  "parse_ethhdr (mem_of ex_vlan6_frame) \<lparr>pos = 0\<rparr> 40 = (0x8100, \<lparr>pos = 34\<rparr>) \<and>
   proto_is_vlan (h_vlan_encapsulated_proto (mem_of ex_vlan6_frame) 30)"
  using vlan_unrolling_bounded[of "mem_of ex_vlan6_frame" 40 0 0 "\<lparr>pos = 0\<rparr>"]
  by (simp add: sizes VLAN_MAX_DEPTH_def eth_h_proto_def h_vlan_encapsulated_proto_def
      load16_def mem_of_def ex_vlan6_frame_def proto_is_vlan_def bpf_htons_def bpf_ntohs_def
      ethertypes)

text \<open>
  C9.  Each parser of \<open>parsing_helpers.h\<close> returns -1 and leaves the cursor where it
  was when fewer bytes remain between the cursor and \<open>data_end\<close> than the header
  needs (its fixed size, and for IPv4 also the size \<open>ihl * 4\<close>); otherwise it
  advances the cursor past the header and returns the header's type field, a
  non-negative value: for Ethernet the last ethertype read, converted from network
  to host byte order.
\<close>

theorem parsers_bounds_checked:
  "(dend < pos nh + sizeof_ethhdr \<longrightarrow> parse_ethhdr m nh dend = (- 1, nh)) \<and>
   (pos nh + sizeof_ethhdr \<le> dend \<longrightarrow>
      parse_ethhdr m nh dend =
        (uint (bpf_ntohs (snd (snd (parse_ethhdr_loop m dend 0 (pos nh + sizeof_ethhdr)
                                      (eth_h_proto m (pos nh)))))),
         nh\<lparr>pos := pos nh + sizeof_ethhdr + sizeof_vlan_hdr *
                      fst (parse_ethhdr_loop m dend 0 (pos nh + sizeof_ethhdr)
                             (eth_h_proto m (pos nh)))\<rparr>)) \<and>
   (dend < pos nh + sizeof_iphdr \<or> dend < pos nh + iph_ihl m (pos nh) * 4 \<longrightarrow>
      parse_iphdr m nh dend = (- 1, nh)) \<and>
   (pos nh + sizeof_iphdr \<le> dend \<and> pos nh + iph_ihl m (pos nh) * 4 \<le> dend \<longrightarrow>
      parse_iphdr m nh dend =
        (uint (iph_protocol m (pos nh)), nh\<lparr>pos := pos nh + iph_ihl m (pos nh) * 4\<rparr>)) \<and>
   (dend < pos nh + sizeof_ipv6hdr \<longrightarrow> parse_ip6hdr m nh dend = (- 1, nh)) \<and>
   (pos nh + sizeof_ipv6hdr \<le> dend \<longrightarrow>
      parse_ip6hdr m nh dend =
        (uint (ip6h_nexthdr m (pos nh)), nh\<lparr>pos := pos nh + sizeof_ipv6hdr\<rparr>)) \<and>
   (dend < pos nh + sizeof_icmphdr \<longrightarrow> parse_icmphdr m nh dend = (- 1, nh)) \<and>
   (pos nh + sizeof_icmphdr \<le> dend \<longrightarrow>
      parse_icmphdr m nh dend =
        (uint (icmph_type m (pos nh)), nh\<lparr>pos := pos nh + sizeof_icmphdr\<rparr>)) \<and>
   (dend < pos nh + sizeof_icmp6hdr \<longrightarrow> parse_icmp6hdr m nh dend = (- 1, nh)) \<and>
   (pos nh + sizeof_icmp6hdr \<le> dend \<longrightarrow>
      parse_icmp6hdr m nh dend =
        (uint (icmph_type m (pos nh)), nh\<lparr>pos := pos nh + sizeof_icmp6hdr\<rparr>))"
proof -
  have eth: "dend < pos nh + sizeof_ethhdr \<longrightarrow> parse_ethhdr m nh dend = (- 1, nh)"
    by (simp add: parse_ethhdr_def Let_def)
  have ip: "dend < pos nh + sizeof_iphdr \<or> dend < pos nh + iph_ihl m (pos nh) * 4 \<longrightarrow>
      parse_iphdr m nh dend = (- 1, nh)"
    by (auto simp: parse_iphdr_def Let_def)
  have ip': "pos nh + sizeof_iphdr \<le> dend \<and> pos nh + iph_ihl m (pos nh) * 4 \<le> dend \<longrightarrow>
      parse_iphdr m nh dend =
        (uint (iph_protocol m (pos nh)), nh\<lparr>pos := pos nh + iph_ihl m (pos nh) * 4\<rparr>)"
    by (auto simp: parse_iphdr_def Let_def)
  show ?thesis
    using eth ip ip' parse_ethhdr_ok[of nh dend m]
    by (simp add: parse_ip6hdr_def parse_icmphdr_def parse_icmp6hdr_def Let_def not_less)
qed

text \<open>
  On the IPv4 example: with the buffer cut after 10 bytes of the IPv4 header the IPv4
  parser fails at offset 14 and the cursor stays; on the whole frame the three parsers
  advance to offsets 14, 34 and 42 and return IPv4 (0x0800), ICMP (1) and echo
  request (8).
\<close>

theorem parsers_bounds_checked_witness:
  "parse_ethhdr (mem_of (ex_ipv4_frame 64)) \<lparr>pos = 0\<rparr> 10 = (- 1, \<lparr>pos = 0\<rparr>) \<and>
   parse_iphdr (mem_of (ex_ipv4_frame 64)) \<lparr>pos = 14\<rparr> 24 = (- 1, \<lparr>pos = 14\<rparr>) \<and>
   parse_ip6hdr (mem_of (ex_ipv6_frame 64)) \<lparr>pos = 14\<rparr> 24 = (- 1, \<lparr>pos = 14\<rparr>) \<and>
   parse_icmphdr (mem_of (ex_ipv4_frame 64)) \<lparr>pos = 34\<rparr> 40 = (- 1, \<lparr>pos = 34\<rparr>) \<and>
   parse_icmp6hdr (mem_of (ex_ipv4_frame 64)) \<lparr>pos = 34\<rparr> 40 = (- 1, \<lparr>pos = 34\<rparr>) \<and>
   parse_ethhdr (mem_of (ex_ipv4_frame 64)) \<lparr>pos = 0\<rparr> 42 = (0x0800, \<lparr>pos = 14\<rparr>) \<and>
   parse_iphdr (mem_of (ex_ipv4_frame 64)) \<lparr>pos = 14\<rparr> 42 = (1, \<lparr>pos = 34\<rparr>) \<and>
   parse_ip6hdr (mem_of (ex_ipv6_frame 64)) \<lparr>pos = 14\<rparr> 54 = (59, \<lparr>pos = 54\<rparr>) \<and>
   parse_icmphdr (mem_of (ex_ipv4_frame 64)) \<lparr>pos = 34\<rparr> 42 = (8, \<lparr>pos = 42\<rparr>) \<and>
   parse_icmp6hdr (mem_of (ex_ipv4_frame 64)) \<lparr>pos = 34\<rparr> 42 = (8, \<lparr>pos = 42\<rparr>)"
  using parsers_bounds_checked[of 10 "\<lparr>pos = 0\<rparr>" "mem_of (ex_ipv4_frame 64)"]
    parsers_bounds_checked[of 24 "\<lparr>pos = 14\<rparr>" "mem_of (ex_ipv4_frame 64)"]
    parsers_bounds_checked[of 24 "\<lparr>pos = 14\<rparr>" "mem_of (ex_ipv6_frame 64)"]
    parsers_bounds_checked[of 40 "\<lparr>pos = 34\<rparr>" "mem_of (ex_ipv4_frame 64)"]
    parsers_bounds_checked[of 42 "\<lparr>pos = 0\<rparr>" "mem_of (ex_ipv4_frame 64)"]
    parsers_bounds_checked[of 42 "\<lparr>pos = 14\<rparr>" "mem_of (ex_ipv4_frame 64)"]
    parsers_bounds_checked[of 54 "\<lparr>pos = 14\<rparr>" "mem_of (ex_ipv6_frame 64)"]
    parsers_bounds_checked[of 42 "\<lparr>pos = 34\<rparr>" "mem_of (ex_ipv4_frame 64)"]
  by (simp add: sizes iph_ihl_def iph_protocol_def ip6h_nexthdr_def icmph_type_def
      eth_h_proto_def load16_def mem_of_def ex_ipv4_frame_def ex_ipv6_frame_def
      parse_ethhdr_loop.simps VLAN_MAX_DEPTH_def proto_is_vlan_def bpf_htons_def bpf_ntohs_def
      ethertypes)

text \<open>
  C10.  \<open>parse_iphdr\<close> has no lower bound on the IHL field: when 20 bytes fit after
  the cursor and \<open>ihl < 5\<close>, it succeeds, advances the cursor by \<open>ihl * 4\<close> bytes
  (fewer than 20, none for \<open>ihl = 0\<close>) and returns the protocol field.
\<close>

theorem parse_iphdr_short_ihl:
  assumes "pos nh + sizeof_iphdr \<le> dend" and "iph_ihl m (pos nh) < 5"
  shows "parse_iphdr m nh dend =
           (uint (iph_protocol m (pos nh)), nh\<lparr>pos := pos nh + iph_ihl m (pos nh) * 4\<rparr>) \<and>
         iph_ihl m (pos nh) * 4 < sizeof_iphdr \<and>
         (iph_ihl m (pos nh) = 0 \<longrightarrow> snd (parse_iphdr m nh dend) = nh)"
  using assms by (auto simp: parse_iphdr_def sizeof_iphdr_def Let_def)

text \<open>With \<open>ihl = 2\<close> the cursor moves 8 bytes, to offset 22, and the result is TCP (6).\<close>

theorem parse_iphdr_short_ihl_witness:
  "iph_ihl (mem_of ex_ihl2_frame) 14 = 2 \<and>
   parse_iphdr (mem_of ex_ihl2_frame) \<lparr>pos = 14\<rparr> 34 = (6, \<lparr>pos = 22\<rparr>)"
proof -
  have i: "iph_ihl (mem_of ex_ihl2_frame) 14 = 2"
    by (simp add: iph_ihl_def mem_of_def ex_ihl2_frame_def)
  have "pos \<lparr>pos = 14\<rparr> + sizeof_iphdr \<le> 34"
    and "iph_ihl (mem_of ex_ihl2_frame) (pos \<lparr>pos = 14\<rparr>) < 5"
    by (simp_all add: sizes i)
  from parse_iphdr_short_ihl[OF this] i show ?thesis
    by (simp add: iph_protocol_def mem_of_def ex_ihl2_frame_def)
qed

section \<open>VLAN push and pop\<close>

lemma adjust_head_grow:
  "bpf_xdp_adjust_head ctx (- int n) =
     (if data ctx < n \<or> data_end ctx + n < data ctx then (- 1, ctx)
      else (0, ctx\<lparr>data := data ctx - n\<rparr>))"
  by (auto simp: bpf_xdp_adjust_head_def Let_def nat_diff_distrib)

lemma adjust_head_shrink:
  "bpf_xdp_adjust_head ctx (int n) =
     (if data_end ctx < data ctx + n then (- 1, ctx) else (0, ctx\<lparr>data := data ctx + n\<rparr>))"
  by (auto simp: bpf_xdp_adjust_head_def Let_def nat_add_distrib)

lemma proto_is_vlan_Q: "proto_is_vlan (bpf_htons ETH_P_8021Q)"
  by (simp add: proto_is_vlan_def)

text \<open>
  A successful push moves the head back by four bytes, moves the two MAC addresses
  with it and writes the tag ethertype and the TCI behind them; the old ethertype
  stays where it was and now is the tag's encapsulated ethertype.
\<close>

lemma push_success:
  assumes push: "vlan_tag_push ctx (data ctx) vlid = (0, ctx1)"
    and wf: "data ctx + sizeof_ethhdr \<le> data_end ctx"
  shows "data ctx1 + 4 = data ctx \<and> data_end ctx1 = data_end ctx \<and>
     mem ctx1 = (\<lambda>x. if data ctx1 \<le> x \<and> x < data ctx1 + 12 then mem ctx (x + 4)
        else if x = data ctx1 + 12 then ucast (bpf_htons ETH_P_8021Q)
        else if x = data ctx1 + 13 then ucast (drop_bit 8 (bpf_htons ETH_P_8021Q))
        else if x = data ctx1 + 14 then ucast (bpf_htons (word_of_int vlid))
        else if x = data ctx1 + 15 then ucast (drop_bit 8 (bpf_htons (word_of_int vlid)))
        else mem ctx x)"
proof (cases "data ctx < 4")
  case True
  then show ?thesis
    using push unfolding vlan_tag_push_def
    by (simp add: adjust_head_grow[of ctx 4, simplified] sizeof_vlan_hdr_def)
next
  case False
  then obtain h where h: "data ctx = h + 4"
    by (metis add.commute le_Suc_ex not_less)
  have a: "bpf_xdp_adjust_head ctx (- 4) = (0, ctx\<lparr>data := h\<rparr>)"
    using adjust_head_grow[of ctx 4] h wf by simp
  have c1: "ctx1 = ctx\<lparr>data := h, mem := mem ctx1\<rparr>"
    using push wf unfolding vlan_tag_push_def
    by (auto simp: a h Let_def sizes)
  have "mem ctx1 x = (if h \<le> x \<and> x < h + 12 then mem ctx (x + 4)
        else if x = h + 12 then ucast (bpf_htons ETH_P_8021Q)
        else if x = h + 13 then ucast (drop_bit 8 (bpf_htons ETH_P_8021Q))
        else if x = h + 14 then ucast (bpf_htons (word_of_int vlid))
        else if x = h + 15 then ucast (drop_bit 8 (bpf_htons (word_of_int vlid)))
        else mem ctx x)" for x
    using push wf unfolding vlan_tag_push_def
    by (auto simp: a h Let_def sizes eth_h_proto_def
         store16_apply store_bytes_load_bytes lo_load16 hi_load16 add.commute)
  moreover have "data ctx1 = h" "data_end ctx1 = data_end ctx"
    by (subst c1, simp)+
  ultimately show ?thesis using h by auto
qed

lemma push_total:
  assumes h: "data ctx = h + 4" and wf: "data ctx + sizeof_ethhdr \<le> data_end ctx"
  shows "fst (vlan_tag_push ctx (data ctx) vlid) = 0"
  using adjust_head_grow[of ctx 4] h wf
  by (auto simp: vlan_tag_push_def Let_def sizes split: if_splits prod.splits)

lemma pop_mem:
  "store16 (store_bytes m (d + 4) 14 (load_bytes m d 14)) (d + 16) (load16 m (d + 16)) =
     (\<lambda>x. if d + 4 \<le> x \<and> x < d + 16 then m (x - 4) else m x)"
  by (auto simp: fun_eq_iff store16_apply store_bytes_load_bytes lo_load16 hi_load16)

text \<open>
  A pop on a frame that starts with a VLAN ethertype and holds one tag succeeds: the
  head moves forward by four bytes and the two MAC addresses move with it.
\<close>

lemma pop_success:
  assumes "proto_is_vlan (eth_h_proto (mem ctx) (data ctx))"
    and "data ctx + 18 \<le> data_end ctx"
  shows "vlan_tag_pop ctx (data ctx) =
     (uint (bpf_ntohs (load16 (mem ctx) (data ctx + 14))),
      ctx\<lparr>data := data ctx + 4,
          mem := (\<lambda>x. if data ctx + 4 \<le> x \<and> x < data ctx + 16 then mem ctx (x - 4)
                       else mem ctx x)\<rparr>)"
  using assms pop_mem[of "mem ctx" "data ctx"] adjust_head_shrink[of ctx 4]
  unfolding vlan_tag_pop_def
  by (simp add: Let_def sizes h_vlan_TCI_def h_vlan_encapsulated_proto_def add.commute)

lemma push_pop:
  assumes wf: "data ctx + sizeof_ethhdr \<le> data_end ctx"
    and vl: "0 \<le> vlid" "vlid < 65536"
    and push: "vlan_tag_push ctx (data ctx) vlid = (0, ctx1)"
    and pop: "vlan_tag_pop ctx1 (data ctx1) = (r, ctx2)"
  shows "r = vlid \<and> frame ctx2 = frame ctx \<and> data ctx2 = data ctx \<and>
         data_end ctx2 = data_end ctx"
proof -
  note p = push_success[OF push wf]
  have d: "data ctx1 + 4 = data ctx" using p by simp
  have m1: "\<And>x. mem ctx1 x = (if data ctx1 \<le> x \<and> x < data ctx1 + 12 then mem ctx (x + 4)
        else if x = data ctx1 + 12 then ucast (bpf_htons ETH_P_8021Q)
        else if x = data ctx1 + 13 then ucast (drop_bit 8 (bpf_htons ETH_P_8021Q))
        else if x = data ctx1 + 14 then ucast (bpf_htons (word_of_int vlid))
        else if x = data ctx1 + 15 then ucast (drop_bit 8 (bpf_htons (word_of_int vlid)))
        else mem ctx x)"
    using p by simp
  have v: "proto_is_vlan (eth_h_proto (mem ctx1) (data ctx1))"
    using proto_is_vlan_Q by (simp add: eth_h_proto_def load16_def bytes_to_u16 m1)
  have fit: "data ctx1 + 18 \<le> data_end ctx1"
    using p wf by (simp add: sizeof_ethhdr_def)
  note q = pop_success[OF v fit]
  from q pop have r: "r = uint (bpf_ntohs (load16 (mem ctx1) (data ctx1 + 14)))"
    and c2: "ctx2 = ctx1\<lparr>data := data ctx1 + 4,
          mem := (\<lambda>x. if data ctx1 + 4 \<le> x \<and> x < data ctx1 + 16 then mem ctx1 (x - 4)
                       else mem ctx1 x)\<rparr>"
    by simp_all
  have "load16 (mem ctx1) (data ctx1 + 14) = bpf_htons (word_of_int vlid)"
    by (simp add: load16_def bytes_to_u16 m1)
  then have "r = vlid" using r vl by (simp add: ntohs_htons uint_word_of_int)
  moreover have "frame ctx2 = frame ctx"
  proof (rule frame_eqI)
    fix x assume "data ctx2 \<le> x" "x < data_end ctx2"
    then show "mem ctx2 x = mem ctx x"
      using d by (auto simp: c2 m1)
  qed (use p c2 d in simp_all)
  ultimately show ?thesis using c2 p d by simp
qed

lemma pop_push:
  assumes wf: "data ctx + sizeof_ethhdr + sizeof_vlan_hdr \<le> data_end ctx"
    and tagged: "eth_h_proto (mem ctx) (data ctx) = bpf_htons ETH_P_8021Q"
    and pop: "vlan_tag_pop ctx (data ctx) = (vlid, ctx1)"
    and push: "vlan_tag_push ctx1 (data ctx1) vlid = (r, ctx2)"
  shows "r = 0 \<and> frame ctx2 = frame ctx \<and> data ctx2 = data ctx \<and>
         data_end ctx2 = data_end ctx"
proof -
  have v: "proto_is_vlan (eth_h_proto (mem ctx) (data ctx))"
    using tagged by (simp add: proto_is_vlan_def)
  have fit: "data ctx + 18 \<le> data_end ctx" using wf by (simp add: sizes)
  note q = pop_success[OF v fit]
  from q pop have vl: "vlid = uint (bpf_ntohs (load16 (mem ctx) (data ctx + 14)))"
    and c1: "ctx1 = ctx\<lparr>data := data ctx + 4,
          mem := (\<lambda>x. if data ctx + 4 \<le> x \<and> x < data ctx + 16 then mem ctx (x - 4)
                       else mem ctx x)\<rparr>"
    by simp_all
  have d1: "data ctx1 = data ctx + 4" and e1: "data_end ctx1 = data_end ctx"
    by (simp_all add: c1)
  have wf1: "data ctx1 + sizeof_ethhdr \<le> data_end ctx1"
    using fit by (simp add: d1 e1 sizes)
  have r: "r = 0"
    using push_total[OF d1 wf1, of vlid] push by simp
  note p = push_success[OF push[unfolded r] wf1]
  have d2: "data ctx2 = data ctx" using p d1 by simp
  have tci: "bpf_htons (word_of_int vlid) = load16 (mem ctx) (data ctx + 14)"
    by (simp add: vl htons_ntohs)
  have q8: "mem ctx (data ctx + 12) = ucast (bpf_htons ETH_P_8021Q)"
    "mem ctx (data ctx + 13) = ucast (drop_bit 8 (bpf_htons ETH_P_8021Q))"
    using lo_load16[of "mem ctx" "data ctx + 12"] hi_load16[of "mem ctx" "data ctx + 12"] tagged
    by (simp_all add: eth_h_proto_def add.commute)
  have "frame ctx2 = frame ctx"
  proof (rule frame_eqI)
    fix x assume "data ctx2 \<le> x" "x < data_end ctx2"
    then show "mem ctx2 x = mem ctx x"
      using p d1 d2 q8
      by (auto simp: c1 tci lo_load16 hi_load16 add.commute)
  qed (use p d2 e1 in simp_all)
  then show ?thesis using r d2 p e1 by simp
qed

text \<open>
  C4, as amended.  (a) On a frame whose Ethernet header fits (tagged or not), when
  \<open>vlan_tag_push\<close> with an id in 0..65535 succeeds, \<open>vlan_tag_pop\<close> on the result
  returns that id and restores the frame bytes and both pointers.  (b) On a frame with
  an 802.1Q tag (ethertype 0x8100) that fits, \<open>vlan_tag_pop\<close> followed by
  \<open>vlan_tag_push\<close> with the value popped succeeds and restores the frame bytes and
  both pointers.
\<close>

theorem vlan_push_pop_roundtrip:
  "(data ctx + sizeof_ethhdr \<le> data_end ctx \<and> 0 \<le> vlid \<and> vlid < 65536 \<and>
    vlan_tag_push ctx (data ctx) vlid = (0, ctx1) \<and>
    vlan_tag_pop ctx1 (data ctx1) = (r, ctx2) \<longrightarrow>
      r = vlid \<and> frame ctx2 = frame ctx \<and> data ctx2 = data ctx \<and>
      data_end ctx2 = data_end ctx) \<and>
   (data ctx' + sizeof_ethhdr + sizeof_vlan_hdr \<le> data_end ctx' \<and>
    eth_h_proto (mem ctx') (data ctx') = bpf_htons ETH_P_8021Q \<and>
    vlan_tag_pop ctx' (data ctx') = (vlid', ctx1') \<and>
    vlan_tag_push ctx1' (data ctx1') vlid' = (r', ctx2') \<longrightarrow>
      r' = 0 \<and> frame ctx2' = frame ctx' \<and> data ctx2' = data ctx' \<and>
      data_end ctx2' = data_end ctx')"
  using push_pop[of ctx vlid ctx1 r ctx2] pop_push[of ctx' vlid' ctx1' r' ctx2']
  by blast

lemmas ex_eval = ctx_of_def mem_of_def ex_ipv4_frame_def ex_ipv6_frame_def ex_tagged_frame_def
  eth_h_proto_def load16_def bpf_htons_def bpf_ntohs_def ethertypes proto_is_vlan_def

text \<open>
  On the IPv4 example with four bytes of headroom, push with id 42 and pop give back
  42 and the frame; on the 802.1Q example (id 42), pop returns 42 and push with it
  succeeds and gives back the frame.
\<close>

theorem vlan_push_pop_roundtrip_witness:
  "fst (vlan_tag_pop (snd (vlan_tag_push ex_headroom_ctx 4 42)) 0) = 42 \<and>
   frame (snd (vlan_tag_pop (snd (vlan_tag_push ex_headroom_ctx 4 42)) 0)) = frame ex_headroom_ctx \<and>
   fst (vlan_tag_pop ex_q_ctx 0) = 42 \<and>
   fst (vlan_tag_push (snd (vlan_tag_pop ex_q_ctx 0)) 4 42) = 0 \<and>
   frame (snd (vlan_tag_push (snd (vlan_tag_pop ex_q_ctx 0)) 4 42)) = frame ex_q_ctx"
proof -
  define c1 where "c1 = snd (vlan_tag_push ex_headroom_ctx 4 42)"
  have d: "data ex_headroom_ctx = 4" "data_end ex_headroom_ctx = 46"
    by (simp_all add: ex_headroom_ctx_def ctx_of_def ex_ipv4_frame_def)
  have wf: "data ex_headroom_ctx + sizeof_ethhdr \<le> data_end ex_headroom_ctx"
    by (simp add: d sizes)
  have "fst (vlan_tag_push ex_headroom_ctx (data ex_headroom_ctx) 42) = 0"
    by (rule push_total[of _ 0]) (simp_all add: d sizes)
  then have push: "vlan_tag_push ex_headroom_ctx (data ex_headroom_ctx) 42 = (0, c1)"
    by (simp add: c1_def d prod_eq_iff)
  have d1: "data c1 = 0" using push_success[OF push wf] d by simp
  have pop: "vlan_tag_pop c1 (data c1) = (fst (vlan_tag_pop c1 0), snd (vlan_tag_pop c1 0))"
    by (simp add: d1)
  have q: "data ex_q_ctx = 0" "data_end ex_q_ctx = 20"
    by (simp_all add: ex_q_ctx_def ctx_of_def ex_tagged_frame_def)
  have tagged: "eth_h_proto (mem ex_q_ctx) (data ex_q_ctx) = bpf_htons ETH_P_8021Q"
    by (simp add: ex_q_ctx_def ex_eval)
  have v: "proto_is_vlan (eth_h_proto (mem ex_q_ctx) (data ex_q_ctx))"
    by (simp add: tagged proto_is_vlan_Q)
  have ps1: "fst (vlan_tag_pop ex_q_ctx (data ex_q_ctx)) = 42"
    using pop_success[OF v] by (simp add: q ex_q_ctx_def ex_eval)
  then have ps: "vlan_tag_pop ex_q_ctx (data ex_q_ctx) = (42, snd (vlan_tag_pop ex_q_ctx 0))"
    by (simp add: prod_eq_iff q)
  have d2: "data (snd (vlan_tag_pop ex_q_ctx 0)) = 4"
    using pop_success[OF v] by (simp add: q)
  have pu: "vlan_tag_push (snd (vlan_tag_pop ex_q_ctx 0)) (data (snd (vlan_tag_pop ex_q_ctx 0))) 42 =
      (fst (vlan_tag_push (snd (vlan_tag_pop ex_q_ctx 0)) 4 42),
       snd (vlan_tag_push (snd (vlan_tag_pop ex_q_ctx 0)) 4 42))"
    by (simp add: d2)
  from vlan_push_pop_roundtrip[of ex_headroom_ctx 42 c1 "fst (vlan_tag_pop c1 0)"
      "snd (vlan_tag_pop c1 0)" ex_q_ctx 42 "snd (vlan_tag_pop ex_q_ctx 0)"
      "fst (vlan_tag_push (snd (vlan_tag_pop ex_q_ctx 0)) 4 42)"
      "snd (vlan_tag_push (snd (vlan_tag_pop ex_q_ctx 0)) 4 42)"]
    wf push pop tagged ps pu ps1
  show ?thesis
    by (simp add: c1_def q sizes)
qed

text \<open>
  The second half of C4 as it was stated fails on a frame whose single tag has the
  802.1ad ethertype 0x88A8, which \<open>proto_is_vlan\<close> accepts as a VLAN tag: pop returns
  42 and push with 42 succeeds, but push always writes the 802.1Q ethertype, so byte
  12 of the frame ends as 0x81 where it was 0x88.
\<close>

theorem pop_push_8021ad_counterexample:
  "proto_is_vlan (eth_h_proto (mem ex_ad_ctx) (data ex_ad_ctx)) \<and>
   data ex_ad_ctx + sizeof_ethhdr + sizeof_vlan_hdr \<le> data_end ex_ad_ctx \<and>
   fst (vlan_tag_pop ex_ad_ctx 0) = 42 \<and>
   fst (vlan_tag_push (snd (vlan_tag_pop ex_ad_ctx 0)) 4 42) = 0 \<and>
   frame (snd (vlan_tag_push (snd (vlan_tag_pop ex_ad_ctx 0)) 4 42)) \<noteq> frame ex_ad_ctx"
proof -
  have q: "data ex_ad_ctx = 0" "data_end ex_ad_ctx = 20"
    by (simp_all add: ex_ad_ctx_def ctx_of_def ex_tagged_frame_def)
  have v: "proto_is_vlan (eth_h_proto (mem ex_ad_ctx) (data ex_ad_ctx))"
    by (simp add: ex_ad_ctx_def ex_eval)
  have fit: "data ex_ad_ctx + 18 \<le> data_end ex_ad_ctx" by (simp add: q)
  define c1 where "c1 = snd (vlan_tag_pop ex_ad_ctx 0)"
  have ps: "fst (vlan_tag_pop ex_ad_ctx 0) = 42"
    using pop_success[OF v fit] by (simp add: q ex_ad_ctx_def ex_eval)
  have d1: "data c1 = 4" "data_end c1 = 20"
    using pop_success[OF v fit] by (simp_all add: c1_def q)
  have wf1: "data c1 + sizeof_ethhdr \<le> data_end c1" by (simp add: d1 sizes)
  have r: "fst (vlan_tag_push c1 (data c1) 42) = 0"
    by (rule push_total[of c1 0]) (simp_all add: d1 sizes)
  then have "vlan_tag_push c1 (data c1) 42 = (0, snd (vlan_tag_push c1 (data c1) 42))"
    by (simp add: prod_eq_iff)
  note p = push_success[OF this wf1]
  define c2 where "c2 = snd (vlan_tag_push c1 (data c1) 42)"
  have "data c2 = 0" "data_end c2 = 20" using p d1 by (simp_all add: c2_def)
  moreover have "mem c2 12 = ucast (bpf_htons ETH_P_8021Q)"
    using p d1 by (simp add: c2_def)
  ultimately have "frame c2 ! 12 = 0x81"
    by (simp add: frame_def bpf_htons_def ETH_P_8021Q_def)
  moreover have "frame ex_ad_ctx ! 12 = 0x88"
    by (simp add: frame_def ex_ad_ctx_def ex_eval)
  ultimately have "frame c2 \<noteq> frame ex_ad_ctx" by auto
  then show ?thesis using v ps r d1 by (simp add: c2_def c1_def q sizes)
qed

















section \<open>The incremental checksum update\<close>

lemma unat_NOT16: "unat (NOT (x :: u16)) = 65535 - unat x"
proof -
  have "NOT x = - 1 - x" by (simp add: not_eq_complement)
  moreover have "unat (- 1 - x) = unat (- 1 :: u16) - unat x"
    by (rule unat_sub) simp
  moreover have "unat (- 1 :: u16) = 65535"
    by (simp add: unsigned_minus_1_eq_mask mask_eq_exp_minus_1)
  ultimately show ?thesis by simp
qed

lemma fold_carry_eq: "fold_carry n = ocn n"
proof (induction n rule: fold_carry.induct)
  case (1 n)
  show ?case
  proof (cases "n < 65536")
    case True
    then show ?thesis by (simp add: ocn_def fold_carry.simps[of n])
  next
    case False
    define q r where "q = n div 65536" and "r = n mod 65536"
    have n: "n = 65536 * q + r" by (simp add: q_def r_def)
    have q: "1 \<le> q" using False by (simp add: q_def Suc_leI div_greater_zero_iff)
    have "fold_carry n = ocn (q + r)"
      using False "1.IH" by (simp add: q_def r_def fold_carry.simps[of n])
    also have "\<dots> = (q + r - 1) mod 65535 + 1"
      using q by (simp add: ocn_def)
    also have "(q + r - 1) mod 65535 = (65535 * q + (q + r - 1)) mod 65535"
      by simp
    also have "65535 * q + (q + r - 1) = n - 1"
      using q n by linarith
    finally show ?thesis using False by (simp add: ocn_def)
  qed
qed

lemma unat_csum16_add: "unat (csum16_add a b) = ocn (unat a + unat b)"
proof -
  have a: "unat a < 65536" and b: "unat b < 65536"
    using unsigned_less[of a] unsigned_less[of b] by simp_all
  show ?thesis
  proof (cases "unat a + unat b < 65536")
    case True
    then have s: "unat (a + b) = unat a + unat b"
      by (simp add: unat_word_ariths)
    then have "\<not> a + b < b" by (simp add: word_less_nat_alt)
    then show ?thesis using s True by (simp add: csum16_add_def Let_def ocn_def)
  next
    case False
    then have s: "unat (a + b) = unat a + unat b - 65536"
      using a b by (simp add: unat_word_ariths mod_if)
    then have lt: "a + b < b" using a b False by (simp add: word_less_nat_alt)
    have "unat (a + b + 1) = (unat (a + b) + 1) mod 65536"
      by (simp add: unat_word_ariths)
    also have "unat (a + b) + 1 = unat a + unat b - 65535"
      using s False by linarith
    also have "(unat a + unat b - 65535) mod 65536 = unat a + unat b - 65535"
      using a b by simp
    finally have "unat (a + b + 1) = unat a + unat b - 65535" .
    moreover have "(unat a + unat b - 1) mod 65535 = unat a + unat b - 1 - 65535"
      using a b False by (simp add: mod_if)
    moreover have "unat a + unat b - 1 - 65535 + 1 = unat a + unat b - 65535"
      using False by linarith
    moreover have "unat a + unat b \<noteq> 0" using False by linarith
    ultimately have "unat (a + b + 1) = ocn (unat a + unat b)"
      unfolding ocn_def by presburger
    then show ?thesis using lt by (simp add: csum16_add_def Let_def)
  qed
qed

lemma ocn_ocn_add: "ocn (ocn a + b) = ocn (a + b)"
proof (cases "a = 0")
  case True then show ?thesis by (simp add: ocn_def)
next
  case False
  then have "ocn a + b - 1 = (a - 1) mod 65535 + b" by (simp add: ocn_def)
  moreover have "a + b - 1 = (a - 1) + b" using False by simp
  moreover have "((a - 1) mod 65535 + b) mod 65535 = ((a - 1) + b) mod 65535"
    by (simp add: mod_add_left_eq)
  ultimately show ?thesis using False by (simp add: ocn_def)
qed

lemma ocn_add_65535: "0 < n \<Longrightarrow> ocn (n + 65535) = ocn n"
  by (cases n) (simp_all add: ocn_def)

lemma ocn_le: "ocn n < 65536"
  by (simp add: ocn_def)

lemma sum_list_update_unat:
  "i < length ws \<Longrightarrow>
     sum_list (map unat (ws[i := v])) + unat (ws ! i) = sum_list (map unat ws) + unat v"
proof (induction ws arbitrary: i)
  case Nil then show ?case by simp
next
  case (Cons w ws)
  then show ?case by (cases i) auto
qed

text \<open>
  Let \<open>ws\<close> be the 16-bit words of a header without its checksum field,
  \<open>csum_full ws\<close> the checksum stored with it, and let word \<open>i\<close> be replaced by
  \<open>m1\<close>.  If the header after the replacement has a word that is not zero, the
  update of \<open>xdp_icmp_echo_func\<close>, complement of
  \<open>csum16_add (csum16_add (~check) (~old)) new\<close>, equals the checksum recomputed in
  full over the header after the replacement.
\<close>

lemma csum_incremental_eq_full:
  fixes ws :: "u16 list"
  assumes i: "i < length ws" and nz: "\<exists>w \<in> set (ws[i := m1]). w \<noteq> 0"
  shows "NOT (csum16_add (csum16_add (NOT (csum_full ws)) (NOT (ws ! i))) m1) =
         csum_full (ws[i := m1])"
proof -
  define S where "S = sum_list (map unat ws)"
  define S' where "S' = sum_list (map unat (ws[i := m1]))"
  define m where "m = unat (ws ! i)"
  have rel: "S' + m = S + unat m1"
    using sum_list_update_unat[OF i] by (simp add: S_def S'_def m_def)
  have m: "m < 65536" using unsigned_less[of "ws ! i"] by (simp add: m_def)
  have S'pos: "0 < S'"
  proof -
    from nz obtain w where "w \<in> set (ws[i := m1])" "w \<noteq> 0" by blast
    then have "unat w \<in> set (map unat (ws[i := m1]))" "0 < unat w"
      by (auto simp: unat_gt_0)
    then have "0 < unat w" "unat w \<le> sum_list (map unat (ws[i := m1]))"
      by (simp_all add: member_le_sum_list)
    then show ?thesis
      unfolding S'_def by linarith
  qed
  have c: "NOT (csum_full ws) = word_of_nat (ocn S)"
    by (simp add: csum_full_def fold_carry_eq S_def)
  have uc: "unat (NOT (csum_full ws)) = ocn S"
    unfolding c using ocn_le[of S] by (simp add: unat_of_nat)
  have un: "unat (NOT (ws ! i)) = 65535 - m"
    by (simp add: m_def unat_NOT16)
  have "unat (csum16_add (csum16_add (NOT (csum_full ws)) (NOT (ws ! i))) m1)
      = ocn (ocn (ocn S + (65535 - m)) + unat m1)"
    by (simp add: unat_csum16_add uc un)
  also have "\<dots> = ocn (S + (65535 - m) + unat m1)"
    by (simp add: ocn_ocn_add)
  also have "S + (65535 - m) + unat m1 = S' + 65535"
    using rel m by linarith
  also have "ocn (S' + 65535) = ocn S'"
    using S'pos by (rule ocn_add_65535)
  finally have "csum16_add (csum16_add (NOT (csum_full ws)) (NOT (ws ! i))) m1 = word_of_nat (ocn S')"
    by (metis of_nat_unat ucast_id)
  then show ?thesis
    by (simp add: csum_full_def fold_carry_eq S'_def)
qed

text \<open>
  On the IPv4 example the words of the ICMP header are 0x0008, 0x0100 and 0x0700 as
  the host loads them; replacing the first by 0 (echo reply) updates the checksum to
  the one recomputed over 0, 0x0100, 0x0700.
\<close>

lemma csum_incremental_example:
  "NOT (csum16_add (csum16_add (NOT (csum_full [0x0008, 0x0100, 0x0700])) (NOT 0x0008)) 0) =
     csum_full [0, 0x0100, 0x0700]"
  using csum_incremental_eq_full[of 0 "[0x0008, 0x0100, 0x0700]" 0]
  by simp

text \<open>
  If every word of the header after the replacement is zero, the update gives the
  checksum 0x0000 and the full recomputation 0xFFFF.
\<close>

lemma csum_incremental_all_zero:
  fixes ws :: "u16 list"
  assumes i: "i < length ws" and z: "\<forall>w \<in> set (ws[i := m1]). w = 0"
  shows "NOT (csum16_add (csum16_add (NOT (csum_full ws)) (NOT (ws ! i))) m1) = 0 \<and>
         csum_full (ws[i := m1]) = 0xFFFF"
proof -
  define S where "S = sum_list (map unat ws)"
  define m where "m = unat (ws ! i)"
  have S'0: "sum_list (map unat (ws[i := m1])) = 0"
    using z by (simp add: sum_list_eq_0_iff unat_eq_0)
  have rel: "m = S + unat m1"
    using sum_list_update_unat[OF i, of m1] by (simp add: S_def S'0 m_def)
  have m: "m < 65536" using unsigned_less[of "ws ! i"] by (simp add: m_def)
  have c: "NOT (csum_full ws) = word_of_nat (ocn S)"
    by (simp add: csum_full_def fold_carry_eq S_def)
  have uc: "unat (NOT (csum_full ws)) = ocn S"
    unfolding c using ocn_le[of S] by (simp add: unat_of_nat)
  have un: "unat (NOT (ws ! i)) = 65535 - m"
    by (simp add: m_def unat_NOT16)
  have "unat (csum16_add (csum16_add (NOT (csum_full ws)) (NOT (ws ! i))) m1)
      = ocn (ocn (ocn S + (65535 - m)) + unat m1)"
    by (simp add: unat_csum16_add uc un)
  also have "\<dots> = ocn (S + (65535 - m) + unat m1)"
    by (simp add: ocn_ocn_add)
  also have "S + (65535 - m) + unat m1 = 65535"
    using rel m by linarith
  also have "ocn 65535 = 65535" by (simp add: ocn_def)
  finally have "csum16_add (csum16_add (NOT (csum_full ws)) (NOT (ws ! i))) m1 = word_of_nat 65535"
    by (metis of_nat_unat ucast_id)
  then show ?thesis
    by (simp add: csum_full_def fold_carry_eq S'0 ocn_def)
qed

lemmas parse_eval = parse_ethhdr_def parse_iphdr_def parse_ip6hdr_def parse_icmphdr_def
  parse_icmp6hdr_def parse_ethhdr_loop.simps iph_ihl_def iph_protocol_def ip6h_nexthdr_def
  icmph_type_def VLAN_MAX_DEPTH_def sizes Let_def

lemmas echo_eval = xdp_icmp_echo_func_def xdp_icmp_echo_icmp_def xdp_icmp_echo_patch_def
  swap_src_dst_mac_def swap_src_dst_ipv4_def load32_def store32_def store16_def
  load_bytes_def store_bytes_def csum16_add_def xdp_stats_record_action_def
  IPPROTO_ICMP_def ICMP_ECHO_def ICMP_ECHOREPLY_def ETH_ALEN_def

text \<open>
  C5.  The incremental update of \<open>xdp_icmp_echo_func\<close> is not always the checksum
  of a full recomputation over the header it has rewritten.  The ICMP echo request
  with code, identifier and sequence number 0 and no payload carries a checksum that
  verifies (the words of its ICMP header, checksum included, sum to all ones).  The
  program answers it with \<open>XDP_TX\<close> and writes 0x0000 into the checksum field of
  the reply, where the recomputation over the words of the reply gives 0xFFFF; the
  words of the reply, checksum included, do not sum to all ones, so the reply does
  not verify.
\<close>

theorem icmp_echo_zero_checksum:
  "csum_full [load16 (mem ex_zero_echo_ctx) 34, load16 (mem ex_zero_echo_ctx) 36,
              load16 (mem ex_zero_echo_ctx) 38, load16 (mem ex_zero_echo_ctx) 40] = 0 \<and>
   fst (xdp_icmp_echo_func ex_zero_echo_ctx ks_empty) = XDP_TX \<and>
   load16 (mem (fst (snd (xdp_icmp_echo_func ex_zero_echo_ctx ks_empty)))) 36 = 0 \<and>
   csum_full [load16 (mem (fst (snd (xdp_icmp_echo_func ex_zero_echo_ctx ks_empty)))) 34,
              load16 (mem (fst (snd (xdp_icmp_echo_func ex_zero_echo_ctx ks_empty)))) 38,
              load16 (mem (fst (snd (xdp_icmp_echo_func ex_zero_echo_ctx ks_empty)))) 40] = 0xFFFF \<and>
   csum_full [load16 (mem (fst (snd (xdp_icmp_echo_func ex_zero_echo_ctx ks_empty)))) 34,
              load16 (mem (fst (snd (xdp_icmp_echo_func ex_zero_echo_ctx ks_empty)))) 36,
              load16 (mem (fst (snd (xdp_icmp_echo_func ex_zero_echo_ctx ks_empty)))) 38,
              load16 (mem (fst (snd (xdp_icmp_echo_func ex_zero_echo_ctx ks_empty)))) 40] \<noteq> 0"
  by (simp add: ex_zero_echo_ctx_def ex_zero_echo_frame_def echo_eval parse_eval ex_eval
      csum_full_def fold_carry.simps)

text \<open>
  The specification's scenario: the echo request with TTL 64 and sequence number 7 is
  answered with \<open>XDP_TX\<close>, the MAC and IPv4 addresses swapped, the type 0 and the
  checksum FF F7, which is the checksum of the reply.
\<close>

lemma echo_scenario:
  "fst (xdp_icmp_echo_func ex_ipv4_ctx ks_empty) = XDP_TX \<and>
   frame (fst (snd (xdp_icmp_echo_func ex_ipv4_ctx ks_empty))) =
     [0x02, 0, 0, 0, 0, 0x02,  0x02, 0, 0, 0, 0, 0x01,  0x08, 0x00,
      0x45, 0x00, 0x00, 0x1C, 0x00, 0x00, 0x00, 0x00, 0x40, 0x01, 0x66, 0xDF,
      0x0A, 0x00, 0x00, 0x02,  0x0A, 0x00, 0x00, 0x01,
      0x00, 0x00, 0xFF, 0xF7, 0x00, 0x01, 0x00, 0x07]"
  by (simp add: ex_ipv4_ctx_def echo_eval parse_eval ex_eval frame_def upt_rec)

section \<open>The router\<close>




lemma router_ttl_v4:
  "data ctx + sizeof_ethhdr + sizeof_iphdr \<le> data_end ctx \<Longrightarrow>
   eth_h_proto (mem ctx) (data ctx) = bpf_htons ETH_P_IP \<Longrightarrow>
   iph_ttl (mem ctx) (data ctx + sizeof_ethhdr) \<le> 1 \<Longrightarrow>
   xdp_router_func fib ctx ks = (XDP_PASS, ctx, ks\<lparr>stats_calls := stats_calls ks @ [XDP_PASS]\<rparr>)"
  by (simp add: xdp_router_func_def xdp_stats_record_action_def Let_def sizes)

lemma router_ttl_v6:
  "data ctx + sizeof_ethhdr + sizeof_ipv6hdr \<le> data_end ctx \<Longrightarrow>
   eth_h_proto (mem ctx) (data ctx) = bpf_htons ETH_P_IPV6 \<Longrightarrow>
   ip6h_hop_limit (mem ctx) (data ctx + sizeof_ethhdr) \<le> 1 \<Longrightarrow>
   xdp_router_func fib ctx ks = (XDP_PASS, ctx, ks\<lparr>stats_calls := stats_calls ks @ [XDP_PASS]\<rparr>)"
  by (simp add: xdp_router_func_def xdp_stats_record_action_def Let_def sizes htons_ip_ne_ipv6[symmetric])

lemma router_fib_called:
  assumes "fib_calls (snd (snd (xdp_router_func fib ctx ks))) \<noteq> fib_calls ks"
  shows "(eth_h_proto (mem ctx) (data ctx) = bpf_htons ETH_P_IP \<and> 1 < iph_ttl (mem ctx) (data ctx + sizeof_ethhdr))
       \<or> (eth_h_proto (mem ctx) (data ctx) = bpf_htons ETH_P_IPV6 \<and> 1 < ip6h_hop_limit (mem ctx) (data ctx + sizeof_ethhdr))"
  using assms
  by (auto simp: xdp_router_func_def xdp_stats_record_action_def Let_def not_le split: if_splits)

lemma router_lookup_result:
  assumes f: "fib (fp\<lparr>ifindex := ingress_ifindex ctx\<rparr>) = (rc, ans)"
    and r: "xdp_router_lookup fib ctx ks h_proto fp XDP_PASS = (verdict, ctx', ks')"
  shows "fib_calls ks' = fib_calls ks @ [fp\<lparr>ifindex := ingress_ifindex ctx\<rparr>] \<and>
     verdict = outcome_verdict rc (ifindex ans) \<and>
     (rc = BPF_FIB_LKUP_RET_SUCCESS \<longrightarrow>
        (\<forall>i<ETH_ALEN. mem ctx' (data ctx + i) = dmac ans ! i) \<and>
        (\<forall>i<ETH_ALEN. mem ctx' (data ctx + 6 + i) = smac ans ! i) \<and>
        (h_proto = bpf_htons ETH_P_IP \<longrightarrow>
           iph_ttl (mem ctx') (data ctx + sizeof_ethhdr) = iph_ttl (mem ctx) (data ctx + sizeof_ethhdr) - 1) \<and>
        (h_proto = bpf_htons ETH_P_IPV6 \<longrightarrow>
           ip6h_hop_limit (mem ctx') (data ctx + sizeof_ethhdr) = ip6h_hop_limit (mem ctx) (data ctx + sizeof_ethhdr) - 1)) \<and>
     (rc \<noteq> BPF_FIB_LKUP_RET_SUCCESS \<longrightarrow> ctx' = ctx)"
proof (cases rc)
  case BPF_FIB_LKUP_RET_SUCCESS
  then show ?thesis
    using f r htons_ip_ne_ipv6
    by (auto simp: xdp_router_lookup_def bpf_fib_lookup_def xdp_stats_record_action_def Let_def
        bpf_redirect_map_def store_bytes_def ETH_ALEN_def ip_decrease_ttl_def store16_def
        iph_ttl_def ip6h_hop_limit_def sizes)
qed (use f r in \<open>auto simp: xdp_router_lookup_def bpf_fib_lookup_def xdp_stats_record_action_def Let_def\<close>)

lemmas router_eval = xdp_router_func_def xdp_router_lookup_def bpf_fib_lookup_def
  xdp_stats_record_action_def fib_const_def iph_ttl_def ip6h_hop_limit_def sizes Let_def

text \<open>
  C2.  For an IPv4 or IPv6 packet that reaches the lookup (the header fits and the
  TTL or hop limit is above 1), \<open>xdp_router_func\<close> calls the resolver once and its
  verdict is the specification's \<open>outcome_verdict\<close> of the resolver's return code:
  \<open>XDP_REDIRECT\<close> under the interface index the resolver answered for success,
  \<open>XDP_DROP\<close> for blackhole, unreachable and prohibited, \<open>XDP_PASS\<close> for the five
  others.  On success the destination and source MAC addresses of the frame are the
  resolver's \<open>dmac\<close> and \<open>smac\<close> and the TTL or hop limit is one less; on any other
  outcome the packet is as it was.
\<close>

theorem router_outcome_verdict:
  assumes reach:
      "(eth_h_proto (mem ctx) (data ctx) = bpf_htons ETH_P_IP \<and>
        data ctx + sizeof_ethhdr + sizeof_iphdr \<le> data_end ctx \<and>
        1 < iph_ttl (mem ctx) (data ctx + sizeof_ethhdr)) \<or>
       (eth_h_proto (mem ctx) (data ctx) = bpf_htons ETH_P_IPV6 \<and>
        data ctx + sizeof_ethhdr + sizeof_ipv6hdr \<le> data_end ctx \<and>
        1 < ip6h_hop_limit (mem ctx) (data ctx + sizeof_ethhdr))"
    and res: "xdp_router_func fib ctx ks = (verdict, ctx', ks')"
  shows "\<exists>key rc ans. fib_calls ks' = fib_calls ks @ [key] \<and> fib key = (rc, ans) \<and>
     verdict = outcome_verdict rc (ifindex ans) \<and>
     (rc = BPF_FIB_LKUP_RET_SUCCESS \<longrightarrow>
        (\<forall>i<ETH_ALEN. mem ctx' (data ctx + i) = dmac ans ! i) \<and>
        (\<forall>i<ETH_ALEN. mem ctx' (data ctx + 6 + i) = smac ans ! i) \<and>
        (eth_h_proto (mem ctx) (data ctx) = bpf_htons ETH_P_IP \<longrightarrow>
           iph_ttl (mem ctx') (data ctx + sizeof_ethhdr) = iph_ttl (mem ctx) (data ctx + sizeof_ethhdr) - 1) \<and>
        (eth_h_proto (mem ctx) (data ctx) = bpf_htons ETH_P_IPV6 \<longrightarrow>
           ip6h_hop_limit (mem ctx') (data ctx + sizeof_ethhdr) = ip6h_hop_limit (mem ctx) (data ctx + sizeof_ethhdr) - 1)) \<and>
     (rc \<noteq> BPF_FIB_LKUP_RET_SUCCESS \<longrightarrow> ctx' = ctx)"
proof -
  have "\<exists>fp. xdp_router_func fib ctx ks =
          xdp_router_lookup fib ctx ks (eth_h_proto (mem ctx) (data ctx)) fp XDP_PASS"
    using reach
  proof (elim disjE conjE)
    assume "eth_h_proto (mem ctx) (data ctx) = bpf_htons ETH_P_IP"
      "data ctx + sizeof_ethhdr + sizeof_iphdr \<le> data_end ctx"
      "1 < iph_ttl (mem ctx) (data ctx + sizeof_ethhdr)"
    moreover from this have "\<not> iph_ttl (mem ctx) (data ctx + sizeof_ethhdr) \<le> 1"
      by simp
    ultimately show ?thesis
      by (simp add: xdp_router_func_def Let_def sizes) blast
  next
    assume "eth_h_proto (mem ctx) (data ctx) = bpf_htons ETH_P_IPV6"
      "data ctx + sizeof_ethhdr + sizeof_ipv6hdr \<le> data_end ctx"
      "1 < ip6h_hop_limit (mem ctx) (data ctx + sizeof_ethhdr)"
    moreover from this have "\<not> ip6h_hop_limit (mem ctx) (data ctx + sizeof_ethhdr) \<le> 1"
      by simp
    ultimately show ?thesis
      using htons_ip_ne_ipv6 by (simp add: xdp_router_func_def Let_def sizes) blast
  qed
  then obtain fp where
    l: "xdp_router_func fib ctx ks =
          xdp_router_lookup fib ctx ks (eth_h_proto (mem ctx) (data ctx)) fp XDP_PASS" ..
  obtain rc ans where f: "fib (fp\<lparr>ifindex := ingress_ifindex ctx\<rparr>) = (rc, ans)"
    by (cases "fib (fp\<lparr>ifindex := ingress_ifindex ctx\<rparr>)")
  from router_lookup_result[OF f res[unfolded l]] f show ?thesis
    by blast
qed

text \<open>
  The IPv4 example (TTL 64) with a resolver answering success is redirected to
  interface 7 with TTL 63 and the resolver's MAC addresses; with a resolver answering
  blackhole it is dropped unchanged; the IPv6 example with a resolver answering "no
  neighbour" is passed.
\<close>

theorem router_outcome_verdict_witness:
  "fst (xdp_router_func (fib_const BPF_FIB_LKUP_RET_SUCCESS) ex_ipv4_ctx ks_empty) = XDP_REDIRECT 7 \<and>
   iph_ttl (mem (fst (snd (xdp_router_func (fib_const BPF_FIB_LKUP_RET_SUCCESS) ex_ipv4_ctx ks_empty)))) 14 = 63 \<and>
   mem (fst (snd (xdp_router_func (fib_const BPF_FIB_LKUP_RET_SUCCESS) ex_ipv4_ctx ks_empty))) 0 = 0x0B \<and>
   mem (fst (snd (xdp_router_func (fib_const BPF_FIB_LKUP_RET_SUCCESS) ex_ipv4_ctx ks_empty))) 6 = 0x0A \<and>
   xdp_router_func (fib_const BPF_FIB_LKUP_RET_BLACKHOLE) ex_ipv4_ctx ks_empty =
     (XDP_DROP, ex_ipv4_ctx, snd (snd (xdp_router_func (fib_const BPF_FIB_LKUP_RET_BLACKHOLE) ex_ipv4_ctx ks_empty))) \<and>
   fst (xdp_router_func (fib_const BPF_FIB_LKUP_RET_NO_NEIGH) (ctx_of (ex_ipv6_frame 64) 0) ks_empty) = XDP_PASS"
proof -
  have r4: "eth_h_proto (mem ex_ipv4_ctx) (data ex_ipv4_ctx) = bpf_htons ETH_P_IP \<and>
        data ex_ipv4_ctx + sizeof_ethhdr + sizeof_iphdr \<le> data_end ex_ipv4_ctx \<and>
        1 < iph_ttl (mem ex_ipv4_ctx) (data ex_ipv4_ctx + sizeof_ethhdr)"
    by (simp add: iph_ttl_def sizes ex_ipv4_ctx_def ex_eval)
  have r6: "eth_h_proto (mem (ctx_of (ex_ipv6_frame 64) 0)) (data (ctx_of (ex_ipv6_frame 64) 0)) = bpf_htons ETH_P_IPV6 \<and>
        data (ctx_of (ex_ipv6_frame 64) 0) + sizeof_ethhdr + sizeof_ipv6hdr \<le> data_end (ctx_of (ex_ipv6_frame 64) 0) \<and>
        1 < ip6h_hop_limit (mem (ctx_of (ex_ipv6_frame 64) 0)) (data (ctx_of (ex_ipv6_frame 64) 0) + sizeof_ethhdr)"
    by (simp add: ip6h_hop_limit_def sizes ex_eval)
  have d: "data ex_ipv4_ctx = 0" by (simp add: ex_ipv4_ctx_def ctx_of_def)
  have t: "iph_ttl (mem ex_ipv4_ctx) 14 = 64" by (simp add: iph_ttl_def ex_ipv4_ctx_def ex_eval)
  let ?s = "xdp_router_func (fib_const BPF_FIB_LKUP_RET_SUCCESS) ex_ipv4_ctx ks_empty"
  let ?b = "xdp_router_func (fib_const BPF_FIB_LKUP_RET_BLACKHOLE) ex_ipv4_ctx ks_empty"
  let ?n = "xdp_router_func (fib_const BPF_FIB_LKUP_RET_NO_NEIGH) (ctx_of (ex_ipv6_frame 64) 0) ks_empty"
  have s: "?s = (fst ?s, fst (snd ?s), snd (snd ?s))" by simp
  have b: "?b = (fst ?b, fst (snd ?b), snd (snd ?b))" by simp
  have n: "?n = (fst ?n, fst (snd ?n), snd (snd ?n))" by simp
  from router_outcome_verdict[OF disjI1[OF r4] s] obtain key rc ans where
      k: "fib_const BPF_FIB_LKUP_RET_SUCCESS key = (rc, ans)"
      and v: "fst ?s = outcome_verdict rc (ifindex ans)"
      and e: "rc = BPF_FIB_LKUP_RET_SUCCESS \<longrightarrow>
        (\<forall>i<ETH_ALEN. mem (fst (snd ?s)) (data ex_ipv4_ctx + i) = dmac ans ! i) \<and>
        (\<forall>i<ETH_ALEN. mem (fst (snd ?s)) (data ex_ipv4_ctx + 6 + i) = smac ans ! i) \<and>
        (eth_h_proto (mem ex_ipv4_ctx) (data ex_ipv4_ctx) = bpf_htons ETH_P_IP \<longrightarrow>
           iph_ttl (mem (fst (snd ?s))) (data ex_ipv4_ctx + sizeof_ethhdr) =
           iph_ttl (mem ex_ipv4_ctx) (data ex_ipv4_ctx + sizeof_ethhdr) - 1)"
    by blast
  from k have rc: "rc = BPF_FIB_LKUP_RET_SUCCESS" and a: "ifindex ans = 7"
      "dmac ans ! 0 = 0x0B" "smac ans ! 0 = 0x0A"
    by (auto simp: fib_const_def)
  from e rc r4 have
      "\<forall>i<ETH_ALEN. mem (fst (snd ?s)) (data ex_ipv4_ctx + i) = dmac ans ! i"
      "\<forall>i<ETH_ALEN. mem (fst (snd ?s)) (data ex_ipv4_ctx + 6 + i) = smac ans ! i"
      "iph_ttl (mem (fst (snd ?s))) (data ex_ipv4_ctx + sizeof_ethhdr) =
         iph_ttl (mem ex_ipv4_ctx) (data ex_ipv4_ctx + sizeof_ethhdr) - 1"
    by simp_all
  from this(1)[rule_format, of 0] this(2)[rule_format, of 0] this(3)
  have 1: "mem (fst (snd ?s)) 0 = 0x0B" "mem (fst (snd ?s)) 6 = 0x0A"
      "iph_ttl (mem (fst (snd ?s))) 14 = 63"
    by (simp_all add: ETH_ALEN_def d a t sizes)
  from router_outcome_verdict[OF disjI1[OF r4] b] obtain key' rc' ans' where
      "fib_const BPF_FIB_LKUP_RET_BLACKHOLE key' = (rc', ans')"
      "fst ?b = outcome_verdict rc' (ifindex ans')"
      "rc' \<noteq> BPF_FIB_LKUP_RET_SUCCESS \<longrightarrow> fst (snd ?b) = ex_ipv4_ctx"
    by blast
  then have 2: "fst ?b = XDP_DROP" "fst (snd ?b) = ex_ipv4_ctx"
    by (auto simp: fib_const_def)
  from router_outcome_verdict[OF disjI2[OF r6] n] obtain key'' rc'' ans'' where
      "fib_const BPF_FIB_LKUP_RET_NO_NEIGH key'' = (rc'', ans'')"
      "fst ?n = outcome_verdict rc'' (ifindex ans'')"
    by blast
  then have 3: "fst ?n = XDP_PASS"
    by (auto simp: fib_const_def)
  show ?thesis
    using v rc a 1 2 3 by (simp add: prod_eq_iff)
qed

text \<open>
  C6.  An IPv4 packet with TTL at most 1, or an IPv6 packet with hop limit at most 1,
  whose header fits, gets the verdict \<open>XDP_PASS\<close> from \<open>xdp_router_func\<close>, recorded
  once, with the packet unchanged and no call of the resolver; and whenever the
  resolver is called, the packet is IPv4 with TTL above 1 or IPv6 with hop limit
  above 1.
\<close>

theorem router_ttl_guard:
  "(data ctx + sizeof_ethhdr + sizeof_iphdr \<le> data_end ctx \<and>
    eth_h_proto (mem ctx) (data ctx) = bpf_htons ETH_P_IP \<and>
    iph_ttl (mem ctx) (data ctx + sizeof_ethhdr) \<le> 1 \<longrightarrow>
      xdp_router_func fib ctx ks =
        (XDP_PASS, ctx, ks\<lparr>stats_calls := stats_calls ks @ [XDP_PASS]\<rparr>) \<and>
      fib_calls (snd (snd (xdp_router_func fib ctx ks))) = fib_calls ks) \<and>
   (data ctx + sizeof_ethhdr + sizeof_ipv6hdr \<le> data_end ctx \<and>
    eth_h_proto (mem ctx) (data ctx) = bpf_htons ETH_P_IPV6 \<and>
    ip6h_hop_limit (mem ctx) (data ctx + sizeof_ethhdr) \<le> 1 \<longrightarrow>
      xdp_router_func fib ctx ks =
        (XDP_PASS, ctx, ks\<lparr>stats_calls := stats_calls ks @ [XDP_PASS]\<rparr>) \<and>
      fib_calls (snd (snd (xdp_router_func fib ctx ks))) = fib_calls ks) \<and>
   (fib_calls (snd (snd (xdp_router_func fib ctx ks))) \<noteq> fib_calls ks \<longrightarrow>
      (eth_h_proto (mem ctx) (data ctx) = bpf_htons ETH_P_IP \<and>
       1 < iph_ttl (mem ctx) (data ctx + sizeof_ethhdr)) \<or>
      (eth_h_proto (mem ctx) (data ctx) = bpf_htons ETH_P_IPV6 \<and>
       1 < ip6h_hop_limit (mem ctx) (data ctx + sizeof_ethhdr)))"
  using router_ttl_v4[of ctx fib ks] router_ttl_v6[of ctx fib ks] router_fib_called[of fib ctx ks]
  by auto

text \<open>
  The IPv4 and IPv6 examples with TTL and hop limit 1 are passed with no resolver
  call; the IPv4 example with TTL 64 does reach the resolver.
\<close>

theorem router_ttl_guard_witness:
  "xdp_router_func (fib_const BPF_FIB_LKUP_RET_SUCCESS) (ctx_of (ex_ipv4_frame 1) 0) ks_empty =
     (XDP_PASS, ctx_of (ex_ipv4_frame 1) 0, \<lparr>stats_calls = [XDP_PASS], fib_calls = []\<rparr>) \<and>
   xdp_router_func (fib_const BPF_FIB_LKUP_RET_SUCCESS) (ctx_of (ex_ipv6_frame 1) 0) ks_empty =
     (XDP_PASS, ctx_of (ex_ipv6_frame 1) 0, \<lparr>stats_calls = [XDP_PASS], fib_calls = []\<rparr>) \<and>
   fib_calls (snd (snd (xdp_router_func (fib_const BPF_FIB_LKUP_RET_BLACKHOLE) ex_ipv4_ctx ks_empty))) \<noteq> [] \<and>
   1 < iph_ttl (mem ex_ipv4_ctx) 14"
proof -
  have "fib_calls (snd (snd (xdp_router_func (fib_const BPF_FIB_LKUP_RET_BLACKHOLE) ex_ipv4_ctx ks_empty))) \<noteq> fib_calls ks_empty"
    by (simp add: router_eval ex_ipv4_ctx_def ex_eval ks_empty_def iph_protocol_def
        word_le_nat_alt)
  then show ?thesis
    using router_ttl_guard[of "ctx_of (ex_ipv4_frame 1) 0" "fib_const BPF_FIB_LKUP_RET_SUCCESS" ks_empty]
      router_ttl_guard[of "ctx_of (ex_ipv6_frame 1) 0" "fib_const BPF_FIB_LKUP_RET_SUCCESS" ks_empty]
      router_ttl_guard[of ex_ipv4_ctx "fib_const BPF_FIB_LKUP_RET_BLACKHOLE" ks_empty]
    by (simp add: iph_ttl_def ip6h_hop_limit_def sizes ex_ipv4_ctx_def ex_eval ks_empty_def)
qed

section \<open>Truncated packets\<close>















section \<open>The statistics collector\<close>

text \<open>
  C3, as amended.  \<open>xdp_parser_func\<close>, \<open>xdp_icmp_echo_func\<close> and \<open>xdp_router_func\<close>
  call the collector exactly once, as their last step, with the verdict they return.
  \<open>xdp_port_rewrite_func\<close>, both versions of \<open>xdp_vlan_swap_func\<close> and
  \<open>xdp_pass_func\<close> return \<open>XDP_PASS\<close> and do not call the collector.
\<close>

theorem stats_once:
  "stats_calls (snd (snd (xdp_parser_func ctx ks))) = stats_calls ks @ [fst (xdp_parser_func ctx ks)] \<and>
   stats_calls (snd (snd (xdp_icmp_echo_func ctx ks))) = stats_calls ks @ [fst (xdp_icmp_echo_func ctx ks)] \<and>
   stats_calls (snd (snd (xdp_router_func fib ctx ks))) = stats_calls ks @ [fst (xdp_router_func fib ctx ks)] \<and>
   fst (xdp_port_rewrite_func ctx ks) = XDP_PASS \<and> snd (snd (xdp_port_rewrite_func ctx ks)) = ks \<and>
   fst (xdp_vlan_swap_func ctx ks) = XDP_PASS \<and> snd (snd (xdp_vlan_swap_func ctx ks)) = ks \<and>
   fst (p02_xdp_vlan_swap_func ctx ks) = XDP_PASS \<and> snd (snd (p02_xdp_vlan_swap_func ctx ks)) = ks \<and>
   fst (xdp_pass_func ctx ks) = XDP_PASS \<and> snd (snd (xdp_pass_func ctx ks)) = ks"
proof -
  have 1: "stats_calls (snd (snd (xdp_parser_func ctx ks))) = stats_calls ks @ [fst (xdp_parser_func ctx ks)]"
    by (simp add: xdp_parser_func_def xdp_stats_record_action_def Let_def split: prod.splits)
  have 2: "stats_calls (snd (snd (xdp_icmp_echo_func ctx ks))) = stats_calls ks @ [fst (xdp_icmp_echo_func ctx ks)]"
    by (simp add: xdp_icmp_echo_func_def xdp_icmp_echo_icmp_def xdp_icmp_echo_patch_def
        xdp_stats_record_action_def Let_def split: prod.splits)
  have 3: "stats_calls (snd (snd (xdp_router_func fib ctx ks))) = stats_calls ks @ [fst (xdp_router_func fib ctx ks)]"
    by (simp add: xdp_router_func_def xdp_router_lookup_def bpf_fib_lookup_def
        xdp_stats_record_action_def Let_def split: prod.splits fib_lkup_ret.splits)
  have 4: "fst (xdp_port_rewrite_func ctx ks) = XDP_PASS \<and> snd (snd (xdp_port_rewrite_func ctx ks)) = ks"
    by (simp add: xdp_port_rewrite_func_def port_rewrite_tcp_def port_rewrite_udp_def Let_def split: prod.splits)
  have 5: "fst (xdp_vlan_swap_func ctx ks) = XDP_PASS \<and> snd (snd (xdp_vlan_swap_func ctx ks)) = ks"
    by (simp add: xdp_vlan_swap_func_def Let_def split: prod.splits)
  have 6: "fst (p02_xdp_vlan_swap_func ctx ks) = XDP_PASS \<and> snd (snd (p02_xdp_vlan_swap_func ctx ks)) = ks"
    by (simp add: p02_xdp_vlan_swap_func_def Let_def split: prod.splits)
  show ?thesis using 1 2 3 4 5 6 by (simp add: xdp_pass_func_def)
qed


theorem stats_once_witness:
  "stats_calls (snd (snd (xdp_icmp_echo_func ex_ipv4_ctx ks_empty))) =
     [fst (xdp_icmp_echo_func ex_ipv4_ctx ks_empty)] \<and>
   snd (snd (xdp_port_rewrite_func ex_ipv4_ctx ks_empty)) = ks_empty"
  using stats_once[of ex_ipv4_ctx ks_empty]
  by (simp add: ks_empty_def)

text \<open>
  C3 as it was stated fails on the programs it names: on the IPv4 example the VLAN
  swappers and the port rewriter return with no call of the collector at all.
\<close>

theorem stats_not_recorded_counterexample:
  "stats_calls (snd (snd (xdp_vlan_swap_func ex_ipv4_ctx ks_empty))) = [] \<and>
   stats_calls (snd (snd (p02_xdp_vlan_swap_func ex_ipv4_ctx ks_empty))) = [] \<and>
   stats_calls (snd (snd (xdp_port_rewrite_func ex_ipv4_ctx ks_empty))) = []"
  by (simp add: xdp_vlan_swap_func_def p02_xdp_vlan_swap_func_def xdp_port_rewrite_func_def
      port_rewrite_tcp_def port_rewrite_udp_def ks_empty_def Let_def split: prod.splits)

end
